theory Spec2Isabelle
  imports Main "HOL-Library.Word"
begin

unbundle bit_operations_syntax

section \<open>Image management of mcumgr: slot state and upload inspection\<close>

text \<open>
  The development embeds two C files: the image state handling (the functions
  \<^verbatim>\<open>img_mgmt_state_flags\<close>, \<^verbatim>\<open>img_mgmt_state_any_pending\<close>, \<^verbatim>\<open>img_mgmt_slot_in_use\<close>,
  \<^verbatim>\<open>img_mgmt_state_set_pending\<close>, \<^verbatim>\<open>img_mgmt_state_confirm\<close>) and the Zephyr port
  \<^verbatim>\<open>zephyr_img_mgmt.c\<close> (slot selection, version comparison, write-pending,
  write-confirmed, swap type, upload inspection).

  Conventions of the embedding.
  \<^item> A C \<^verbatim>\<open>int\<close> is an \<^typ>\<open>int\<close>; no computation on one leaves the range of the
    machine type. A \<^verbatim>\<open>uint8_t\<close> is an \<^typ>\<open>8 word\<close>, and the conversions between the
    two are written out (\<^verbatim>\<open>fa_id = -1\<close> stores 255).
  \<^item> A failed \<^verbatim>\<open>assert\<close> is a fatal stop: a function that can reach one returns
    \<open>fatal + 'a\<close>, \<open>Inl\<close> for the stop. So is a remainder by zero. In a build that
    compiles assertions out (the field \<open>NDEBUG\<close> of the environment) an \<^verbatim>\<open>assert\<close> does
    nothing, and the statements after it run.
  \<^item> Functions of other files (the bootloader, the flash map, the logger, the
    image header reader) are fields of the record \<open>env\<close>: what each call answers.
    Preprocessor switches are boolean fields of the same record.
  \<^item> Calls that act on a collaborator are appended to \<open>calls\<close> of the record
    \<open>world\<close>, which also holds the upload session \<^verbatim>\<open>g_img_mgmt_state\<close>.
\<close>

subsection \<open>Constants of headers\<close>

type_synonym u8 = "8 word"

text \<open>
  Modelled from the spec: the macros \<^verbatim>\<open>IMG_MGMT_STATE_F_*\<close> of \<^verbatim>\<open>img_mgmt.h\<close>, a header
  that is not among the sources. The spec's data model makes the status flags a bit set
  of Pending, Confirmed, Active and Permanent: four distinct bits of the \<^verbatim>\<open>uint8_t\<close>.
\<close>

definition IMG_MGMT_STATE_F_PENDING :: u8 where
  "IMG_MGMT_STATE_F_PENDING = 0x01"

definition IMG_MGMT_STATE_F_CONFIRMED :: u8 where
  "IMG_MGMT_STATE_F_CONFIRMED = 0x02"

definition IMG_MGMT_STATE_F_ACTIVE :: u8 where
  "IMG_MGMT_STATE_F_ACTIVE = 0x04"

definition IMG_MGMT_STATE_F_PERMANENT :: u8 where
  "IMG_MGMT_STATE_F_PERMANENT = 0x08"

text \<open>
  Modelled from the spec: the macros \<^verbatim>\<open>IMG_MGMT_SWAP_TYPE_*\<close> (\<^verbatim>\<open>img_mgmt.h\<close>) and
  \<^verbatim>\<open>BOOT_SWAP_TYPE_*\<close> (the bootloader's header), not among the sources. The spec's
  swap type is an enumeration of None, Test, Permanent and Revert: four distinct codes
  on each side.
\<close>

definition IMG_MGMT_SWAP_TYPE_NONE :: int where
  "IMG_MGMT_SWAP_TYPE_NONE = 0"

definition IMG_MGMT_SWAP_TYPE_TEST :: int where
  "IMG_MGMT_SWAP_TYPE_TEST = 1"

definition IMG_MGMT_SWAP_TYPE_PERM :: int where
  "IMG_MGMT_SWAP_TYPE_PERM = 2"

definition IMG_MGMT_SWAP_TYPE_REVERT :: int where
  "IMG_MGMT_SWAP_TYPE_REVERT = 3"

definition BOOT_SWAP_TYPE_NONE :: int where
  "BOOT_SWAP_TYPE_NONE = 1"

definition BOOT_SWAP_TYPE_TEST :: int where
  "BOOT_SWAP_TYPE_TEST = 2"

definition BOOT_SWAP_TYPE_PERM :: int where
  "BOOT_SWAP_TYPE_PERM = 3"

definition BOOT_SWAP_TYPE_REVERT :: int where
  "BOOT_SWAP_TYPE_REVERT = 4"

text \<open>
  Modelled from the spec: the values a bootloader trailer field takes
  (\<^verbatim>\<open>BOOT_MAGIC_GOOD\<close>, \<^verbatim>\<open>BOOT_FLAG_SET\<close> of the bootloader's header, not among the
  sources); only equality with them is tested.
\<close>

definition BOOT_MAGIC_GOOD :: int where
  "BOOT_MAGIC_GOOD = 1"

definition BOOT_FLAG_SET :: int where
  "BOOT_FLAG_SET = 1"

text \<open>
  Modelled from the spec: the management error codes \<^verbatim>\<open>MGMT_ERR_*\<close> of \<^verbatim>\<open>mgmt.h\<close>,
  not among the sources. Zero is success; the spec's MalformedHeader and MagicMismatch
  are \<^verbatim>\<open>EINVAL\<close>, NoSlotAvailable is \<^verbatim>\<open>ENOMEM\<close>, DowngradeRejected and
  IllegalTransition are \<^verbatim>\<open>EBADSTATE\<close>.
\<close>

definition MGMT_ERR_EOK :: int where
  "MGMT_ERR_EOK = 0"

definition MGMT_ERR_EUNKNOWN :: int where
  "MGMT_ERR_EUNKNOWN = 1"

definition MGMT_ERR_ENOMEM :: int where
  "MGMT_ERR_ENOMEM = 2"

definition MGMT_ERR_EINVAL :: int where
  "MGMT_ERR_EINVAL = 3"

definition MGMT_ERR_EBADSTATE :: int where
  "MGMT_ERR_EBADSTATE = 6"

subsection \<open>Data\<close>

datatype fatal =
    ASSERT_query_slot
  | ASSERT_swap_type
  | ASSERT_fa_size
  | DIVISION_BY_ZERO

text \<open>
  Modelled from the spec: \<^verbatim>\<open>struct boot_swap_state\<close> of the bootloader's header, not among
  the sources; the trailer fields (magic, copy-done, image-ok) that
  \<^verbatim>\<open>img_mgmt_state_flags\<close> reads.
\<close>

record boot_swap_state =
  magic :: int
  copy_done :: int
  image_ok :: int

text \<open>
  Modelled from the spec: \<^verbatim>\<open>struct image_version\<close> of \<^verbatim>\<open>image.h\<close>, not among the sources;
  the spec's ImageVersion of major, minor, revision and build, unsigned integers (here a
  byte each for major and minor, 16 bits for the revision, 32 bits for the build
  number, which the source's comment names \<^verbatim>\<open>the 32-bit build num\<close>).
\<close>

record image_version =
  iv_major :: "8 word"
  iv_minor :: "8 word"
  iv_revision :: "16 word"
  iv_build_num :: "32 word"

text \<open>
  Modelled from the spec: \<^verbatim>\<open>struct image_header\<close> of \<^verbatim>\<open>image.h\<close>, not among the sources;
  the fields the management code reads. The upload request holds the header as the
  first bytes of its chunk; the model holds it decoded.
\<close>

record image_header =
  ih_magic :: "32 word"
  ih_load_addr :: "32 word"
  ih_flags :: "32 word"
  ih_ver :: image_version

text \<open>
  Modelled from the spec: \<^verbatim>\<open>struct flash_area\<close> of the flash map, not among the sources,
  with what the flash map answers about the area: the spec's FlashRegion with its
  erased byte and its alignment. The alignment is a byte: \<^verbatim>\<open>flash_area_align\<close> of the
  flash map that the source includes (\<^verbatim>\<open>storage/flash_map.h\<close>) returns a \<^verbatim>\<open>uint8_t\<close>, and
  the source stores a remainder by it in its \<^verbatim>\<open>uint8_t rem_bytes\<close>.
\<close>

record flash_area =
  fa_id :: int
  fa_off :: nat
  fa_size :: nat
  fa_erased_val :: u8
  fa_align :: u8

text \<open>
  Modelled from the spec: \<^verbatim>\<open>struct img_mgmt_state\<close> of \<^verbatim>\<open>img_mgmt_priv.h\<close>, not among the
  sources; the spec's UploadSession. \<open>st_area_id\<close> is -1 when no upload is in progress;
  \<open>st_off\<close>, the next offset, and \<open>st_size\<close>, the total size, are 32-bit unsigned.
\<close>

record img_mgmt_state =
  st_area_id :: int
  st_off :: "32 word"
  st_size :: "32 word"
  st_data_sha_len :: nat
  st_data_sha :: "u8 list"

text \<open>
  Modelled from the spec: \<^verbatim>\<open>struct img_mgmt_upload_req\<close> of \<^verbatim>\<open>img_mgmt.h\<close>, not among the
  sources; the spec's UploadRequest. \<open>req_off\<close> and \<open>req_size\<close> are the
  \<^verbatim>\<open>unsigned long long\<close> fields that hold -1 when the request has no such field; they
  are integers here, -1 for the missing field. Lengths are natural numbers: a chunk and
  its hash lie in the fixed buffers of the request, and an offset that is accepted is 0
  or the 32-bit offset of the session, so no sum below comes near the range of its C
  type. \<open>req_hdr\<close> is the image header that the first bytes of \<^verbatim>\<open>img_data\<close> hold.
\<close>

record img_mgmt_upload_req =
  req_image :: int
  req_off :: int
  req_size :: int
  req_data_len :: nat
  req_data_sha_len :: nat
  req_hdr :: image_header
  req_data_sha :: "u8 list"
  req_upgrade :: bool

text \<open>
  Modelled from the spec: \<^verbatim>\<open>struct img_mgmt_upload_action\<close> of \<^verbatim>\<open>img_mgmt.h\<close>, not among
  the sources; the spec's UploadAction.
\<close>

record img_mgmt_upload_action =
  act_size :: int
  act_write_bytes :: int
  act_area_id :: int
  act_proceed :: bool
  act_erase :: bool

text \<open>The messages \<^verbatim>\<open>*errstr\<close> can be set to.\<close>

datatype errstr =
    img_mgmt_err_str_hdr_malformed
  | img_mgmt_err_str_magic_mismatch
  | img_mgmt_err_str_no_slot
  | img_mgmt_err_str_flash_open_failed
  | img_mgmt_err_str_image_bad_flash_addr
  | img_mgmt_err_str_downgrade

text \<open>
  The calls on collaborators that the functions below make, in the order made.
\<close>

datatype call =
    Boot_request_upgrade int
  | Boot_write_img_confirmed
  | Img_mgmt_dfu_confirmed
  | Img_mgmt_read_info int
  | Img_mgmt_impl_log_pending int "u8 list option"
  | Img_mgmt_impl_log_confirm int "u8 list option"
  | Img_mgmt_my_version
  | Flash_area_open int
  | Flash_area_read int nat nat
  | Flash_area_close int

record world =
  g_img_mgmt_state :: img_mgmt_state
  calls :: "call list"

text \<open>
  The environment. \<open>NDEBUG\<close> says that the build compiles assertions out.
  \<open>FLASH_AREA_ID_image_2\<close> and \<open>FLASH_AREA_ID_image_3\<close> are \<open>None\<close>
  when \<^verbatim>\<open>FLASH_AREA_LABEL_EXISTS\<close> is false for the label. Each area id is held as the
  \<^verbatim>\<open>uint8_t\<close> that \<^verbatim>\<open>zephyr_img_mgmt_flash_area_id\<close> stores it in.
  \<open>img_mgmt_read_info\<close> answers the return code and the hash of a slot's image;
  \<open>img_mgmt_my_version\<close> the return code and the running image's version;
  \<open>flash_area_open\<close> the return code and the area; \<open>flash_area_read\<close> the return code
  and the bytes read. The two loggers answer their own return code, given the status
  and the hash (\<open>None\<close> for a null pointer).
\<close>

record env =
  NDEBUG :: bool
  CONFIG_BOARD_SCORPIO :: bool
  CONFIG_IMG_MGMT_REJECT_DIRECT_XIP_MISMATCHED_SLOT :: bool
  IMG_MGMT_LAZY_ERASE :: bool
  IMG_MGMT_BOOT_CURR_SLOT :: int
  FLASH_AREA_ID_image_0 :: u8
  FLASH_AREA_ID_image_1 :: u8
  FLASH_AREA_ID_image_2 :: "u8 option"
  FLASH_AREA_ID_image_3 :: "u8 option"
  sizeof_image_header :: nat
  IMAGE_MAGIC :: "32 word"
  IMAGE_F_ROM_FIXED_ADDR :: "32 word"
  IMG_MGMT_DATA_SHA_LEN :: nat
  mcuboot_swap_type :: int
  boot_read_swap_state_by_id :: "int \<Rightarrow> boot_swap_state"
  boot_request_upgrade :: "int \<Rightarrow> int"
  boot_write_img_confirmed :: int
  img_mgmt_read_info :: "int \<Rightarrow> int \<times> u8 list"
  img_mgmt_my_version :: "int \<times> image_version"
  img_mgmt_impl_log_pending :: "int \<Rightarrow> u8 list option \<Rightarrow> int"
  img_mgmt_impl_log_confirm :: "int \<Rightarrow> u8 list option \<Rightarrow> int"
  flash_area_open :: "int \<Rightarrow> int \<times> flash_area"
  flash_area_read :: "flash_area \<Rightarrow> nat \<Rightarrow> nat \<Rightarrow> int \<times> u8 list"

subsection \<open>Swap type and status flags\<close>

text \<open>
  \<^verbatim>\<open>img_mgmt_impl_swap_type\<close>: the bootloader's swap type as the management code
  names it. The default branch is \<^verbatim>\<open>printf(...); assert(0); return IMG_MGMT_SWAP_TYPE_NONE;\<close>:
  an unknown value stops at the assertion, and where assertions are compiled out it is
  answered with the code of None.
\<close>

definition img_mgmt_impl_swap_type :: "env \<Rightarrow> fatal + int" where
  "img_mgmt_impl_swap_type e =
     (let swap = mcuboot_swap_type e in
      if swap = BOOT_SWAP_TYPE_NONE then Inr IMG_MGMT_SWAP_TYPE_NONE
      else if swap = BOOT_SWAP_TYPE_TEST then Inr IMG_MGMT_SWAP_TYPE_TEST
      else if swap = BOOT_SWAP_TYPE_PERM then Inr IMG_MGMT_SWAP_TYPE_PERM
      else if swap = BOOT_SWAP_TYPE_REVERT then Inr IMG_MGMT_SWAP_TYPE_REVERT
      else if \<not> NDEBUG e then Inl ASSERT_swap_type
      else Inr IMG_MGMT_SWAP_TYPE_NONE)"

text \<open>
  The switch of \<^verbatim>\<open>img_mgmt_state_flags\<close> on the swap type, starting from
  \<open>flags = 0\<close>; its default branch prints and leaves the flags empty.
\<close>

definition swap_type_flags :: "env \<Rightarrow> int \<Rightarrow> int \<Rightarrow> u8" where
  "swap_type_flags e query_slot swap_type =
     (if swap_type = IMG_MGMT_SWAP_TYPE_NONE then
        (if query_slot = IMG_MGMT_BOOT_CURR_SLOT e
         then (0 OR IMG_MGMT_STATE_F_CONFIRMED) OR IMG_MGMT_STATE_F_ACTIVE
         else 0)
      else if swap_type = IMG_MGMT_SWAP_TYPE_TEST then
        (if query_slot = IMG_MGMT_BOOT_CURR_SLOT e
         then 0 OR IMG_MGMT_STATE_F_CONFIRMED
         else 0 OR IMG_MGMT_STATE_F_PENDING)
      else if swap_type = IMG_MGMT_SWAP_TYPE_PERM then
        (if query_slot = IMG_MGMT_BOOT_CURR_SLOT e
         then 0 OR IMG_MGMT_STATE_F_CONFIRMED
         else 0 OR (IMG_MGMT_STATE_F_PENDING OR IMG_MGMT_STATE_F_PERMANENT))
      else if swap_type = IMG_MGMT_SWAP_TYPE_REVERT then
        (if query_slot = IMG_MGMT_BOOT_CURR_SLOT e
         then 0 OR IMG_MGMT_STATE_F_ACTIVE
         else 0 OR IMG_MGMT_STATE_F_CONFIRMED)
      else 0)"

text \<open>
  The board-specific variant of the derivation: the flags come from the slot's own
  trailer, read through \<^verbatim>\<open>boot_read_swap_state_by_id(query_slot + 1, &state)\<close>.
\<close>

definition scorpio_flags :: "env \<Rightarrow> int \<Rightarrow> u8" where
  "scorpio_flags e query_slot =
     (let state = boot_read_swap_state_by_id e (query_slot + 1) in
      if magic state = BOOT_MAGIC_GOOD then
        (let flags = (if image_ok state = BOOT_FLAG_SET
                      then 0 OR IMG_MGMT_STATE_F_CONFIRMED else 0)
         in if copy_done state = BOOT_FLAG_SET
            then flags OR IMG_MGMT_STATE_F_ACTIVE else flags)
      else 0)"

text \<open>
  \<^verbatim>\<open>img_mgmt_state_flags\<close>: the status flags of an image slot, after
  \<^verbatim>\<open>assert(query_slot == 0 || query_slot == 1)\<close>.
\<close>

definition img_mgmt_state_flags :: "env \<Rightarrow> int \<Rightarrow> fatal + u8" where
  "img_mgmt_state_flags e query_slot =
     (if \<not> NDEBUG e \<and> \<not> (query_slot = 0 \<or> query_slot = 1) then Inl ASSERT_query_slot
      else if CONFIG_BOARD_SCORPIO e then Inr (scorpio_flags e query_slot)
      else
        (case img_mgmt_impl_swap_type e of
           Inl f \<Rightarrow> Inl f
         | Inr swap_type \<Rightarrow> Inr (swap_type_flags e query_slot swap_type)))"

text \<open>
  \<^verbatim>\<open>img_mgmt_state_any_pending\<close>: the C \<^verbatim>\<open>||\<close> evaluates its right operand only when
  the left one is zero, and yields 0 or 1.
\<close>

definition img_mgmt_state_any_pending :: "env \<Rightarrow> fatal + int" where
  "img_mgmt_state_any_pending e =
     (case img_mgmt_state_flags e 0 of
        Inl f \<Rightarrow> Inl f
      | Inr flags0 \<Rightarrow>
          if flags0 AND IMG_MGMT_STATE_F_PENDING \<noteq> 0 then Inr 1
          else
            (case img_mgmt_state_flags e 1 of
               Inl f \<Rightarrow> Inl f
             | Inr flags1 \<Rightarrow>
                 if flags1 AND IMG_MGMT_STATE_F_PENDING \<noteq> 0 then Inr 1 else Inr 0))"

text \<open>\<^verbatim>\<open>img_mgmt_slot_in_use\<close>: whether the slot has any of Active, Confirmed, Pending.\<close>

definition img_mgmt_slot_in_use :: "env \<Rightarrow> int \<Rightarrow> fatal + int" where
  "img_mgmt_slot_in_use e slot =
     (case img_mgmt_state_flags e slot of
        Inl f \<Rightarrow> Inl f
      | Inr state_flags \<Rightarrow>
          if state_flags AND IMG_MGMT_STATE_F_ACTIVE \<noteq> 0 then Inr 1
          else if state_flags AND IMG_MGMT_STATE_F_CONFIRMED \<noteq> 0 then Inr 1
          else if state_flags AND IMG_MGMT_STATE_F_PENDING \<noteq> 0 then Inr 1
          else Inr 0)"

subsection \<open>Slot selection\<close>

text \<open>
  \<^verbatim>\<open>zephyr_img_mgmt_flash_area_id\<close>: the local \<^verbatim>\<open>fa_id\<close> is a \<^verbatim>\<open>uint8_t\<close>, so the default
  branch's \<^verbatim>\<open>fa_id = -1\<close> stores 255, and the function returns that byte as an \<^verbatim>\<open>int\<close>.
\<close>

definition zephyr_img_mgmt_flash_area_id :: "env \<Rightarrow> int \<Rightarrow> int" where
  "zephyr_img_mgmt_flash_area_id e slot =
     (let fa_id :: u8 =
        (if slot = 0 then FLASH_AREA_ID_image_0 e
         else if slot = 1 then FLASH_AREA_ID_image_1 e
         else if slot = 2 then
           (case FLASH_AREA_ID_image_2 e of Some i \<Rightarrow> i | None \<Rightarrow> word_of_int (- 1))
         else if slot = 3 then
           (case FLASH_AREA_ID_image_3 e of Some i \<Rightarrow> i | None \<Rightarrow> word_of_int (- 1))
         else word_of_int (- 1))
      in uint fa_id)"

text \<open>
  The automatic selection of \<^verbatim>\<open>img_mgmt_get_unused_slot_area_id\<close>: the loop
  \<^verbatim>\<open>for (slot = 0; slot < 2; slot++)\<close>, entered at \<open>slot\<close>, and the \<^verbatim>\<open>return -1\<close> after it.
\<close>

function auto_select :: "env \<Rightarrow> int \<Rightarrow> fatal + int" where
  "auto_select e slot =
     (if slot < 2 then
        (case img_mgmt_slot_in_use e slot of
           Inl f \<Rightarrow> Inl f
         | Inr in_use \<Rightarrow>
             if in_use = 0 then
               (let area_id = zephyr_img_mgmt_flash_area_id e slot in
                if area_id \<noteq> - 1 then Inr area_id else auto_select e (slot + 1))
             else auto_select e (slot + 1))
      else Inr (- 1))"
  by pat_completeness auto
termination
  by (relation "measure (\<lambda>(e, slot). nat (2 - slot))") auto

definition img_mgmt_get_unused_slot_area_id :: "env \<Rightarrow> int \<Rightarrow> fatal + int" where
  "img_mgmt_get_unused_slot_area_id e slot =
     (if slot < - 1 then Inr (- 1)
      else if slot = - 1 then auto_select e 0
      else if slot < 2 then
        (case img_mgmt_slot_in_use e slot of
           Inl f \<Rightarrow> Inl f
         | Inr in_use \<Rightarrow>
             (let slot' = (if in_use = 0 then slot else - 1) in
              Inr (if slot' \<noteq> - 1 then zephyr_img_mgmt_flash_area_id e slot' else - 1)))
      else Inr (if slot \<noteq> - 1 then zephyr_img_mgmt_flash_area_id e slot else - 1))"

subsection \<open>Version comparison\<close>

definition img_mgmt_vercmp :: "image_version \<Rightarrow> image_version \<Rightarrow> int" where
  "img_mgmt_vercmp a b =
     (if iv_major a < iv_major b then - 1
      else if iv_major a > iv_major b then 1
      else if iv_minor a < iv_minor b then - 1
      else if iv_minor a > iv_minor b then 1
      else if iv_revision a < iv_revision b then - 1
      else if iv_revision a > iv_revision b then 1
      else 0)"

subsection \<open>State transitions\<close>

definition do_call :: "call \<Rightarrow> world \<Rightarrow> world" where
  "do_call c w = w\<lparr>calls := calls w @ [c]\<rparr>"

definition img_mgmt_impl_write_pending :: "env \<Rightarrow> int \<Rightarrow> bool \<Rightarrow> world \<Rightarrow> int \<times> world" where
  "img_mgmt_impl_write_pending e slot permanent w =
     (if slot \<noteq> 1 then (MGMT_ERR_EINVAL, w)
      else
        (let rc = boot_request_upgrade e (of_bool permanent);
             w1 = do_call (Boot_request_upgrade (of_bool permanent)) w
         in if rc \<noteq> 0 then (MGMT_ERR_EUNKNOWN, w1) else (0, w1)))"

definition img_mgmt_impl_write_confirmed :: "env \<Rightarrow> world \<Rightarrow> int \<times> world" where
  "img_mgmt_impl_write_confirmed e w =
     (let rc = boot_write_img_confirmed e;
          w1 = do_call Boot_write_img_confirmed w
      in if rc \<noteq> 0 then (MGMT_ERR_EUNKNOWN, w1) else (0, w1))"

text \<open>
  \<^verbatim>\<open>img_mgmt_state_set_pending\<close>. After the label \<^verbatim>\<open>done\<close> the hash of the slot's image
  is read, the outcome is logged (the logger's own return code is cast to void), and
  \<^verbatim>\<open>rc\<close> is returned.
\<close>

definition img_mgmt_state_set_pending :: "env \<Rightarrow> int \<Rightarrow> int \<Rightarrow> world \<Rightarrow> fatal + (int \<times> world)" where
  "img_mgmt_state_set_pending e slot permanent w =
     (case img_mgmt_state_flags e slot of
        Inl f \<Rightarrow> Inl f
      | Inr state_flags \<Rightarrow>
          (let (rc, w1) =
                 (if state_flags AND IMG_MGMT_STATE_F_CONFIRMED \<noteq> 0 \<and> slot \<noteq> 0
                  then (MGMT_ERR_EBADSTATE, w)
                  else
                    (let (rc', w') = img_mgmt_impl_write_pending e slot (permanent \<noteq> 0) w
                     in (if rc' \<noteq> 0 then MGMT_ERR_EUNKNOWN else rc', w')));
               (info_rc, hash) = img_mgmt_read_info e slot;
               w2 = do_call (Img_mgmt_read_info slot) w1;
               hashp = (if info_rc \<noteq> 0 then None else Some hash);
               w3 = (if permanent \<noteq> 0
                     then do_call (Img_mgmt_impl_log_confirm rc hashp) w2
                     else do_call (Img_mgmt_impl_log_pending rc hashp) w2)
           in Inr (rc, w3)))"

text \<open>
  \<^verbatim>\<open>img_mgmt_state_confirm\<close>. The function ends in
  \<^verbatim>\<open>return img_mgmt_impl_log_confirm(rc, NULL);\<close>: its result is the logger's.
\<close>

definition img_mgmt_state_confirm :: "env \<Rightarrow> world \<Rightarrow> fatal + (int \<times> world)" where
  "img_mgmt_state_confirm e w =
     (case img_mgmt_state_any_pending e of
        Inl f \<Rightarrow> Inl f
      | Inr pending \<Rightarrow>
          (let (rc, w1) =
                 (if pending \<noteq> 0 then (MGMT_ERR_EBADSTATE, w)
                  else
                    (let (rc', w') = img_mgmt_impl_write_confirmed e w
                     in (if rc' \<noteq> 0 then MGMT_ERR_EUNKNOWN else rc',
                         do_call Img_mgmt_dfu_confirmed w')))
           in Inr (img_mgmt_impl_log_confirm e rc None,
                   do_call (Img_mgmt_impl_log_confirm rc None) w1)))"

subsection \<open>Scanning a flash area\<close>

text \<open>
  Word \<open>i\<close> of the buffer \<^verbatim>\<open>uint32_t data[16]\<close> equals \<^verbatim>\<open>ERASED_VAL_32(erased_val)\<close>
  exactly when its four bytes all equal \<open>erased_val\<close>, whatever the byte order.
\<close>

definition word_is_erased :: "u8 \<Rightarrow> u8 list \<Rightarrow> nat \<Rightarrow> bool" where
  "word_is_erased erased_val data i =
     (take 4 (drop (4 * i) data) = replicate 4 erased_val)"

text \<open>
  The loop of \<^verbatim>\<open>zephyr_img_mgmt_flash_check_empty\<close>, entered at \<open>addr\<close>; the buffer is
  64 bytes. The result is \<open>Inl\<close> of the error code, or \<open>Inr\<close> of what \<^verbatim>\<open>*out_empty\<close> is
  set to.
\<close>

function check_empty_loop ::
  "env \<Rightarrow> int \<Rightarrow> flash_area \<Rightarrow> nat \<Rightarrow> nat \<Rightarrow> world \<Rightarrow> (int + bool) \<times> world" where
  "check_empty_loop e aid fa end_addr addr w =
     (if addr < end_addr then
        (let bytes_to_read = (if end_addr - addr < 64 then end_addr - addr else 64);
             rd = flash_area_read e fa addr bytes_to_read;
             w1 = do_call (Flash_area_read aid addr bytes_to_read) w
         in if fst rd \<noteq> 0 then (Inl MGMT_ERR_EUNKNOWN, do_call (Flash_area_close aid) w1)
            else if list_ex (\<lambda>i. \<not> word_is_erased (fa_erased_val fa) (snd rd) i)
                      [0 ..< bytes_to_read div 4]
            then (Inr False, do_call (Flash_area_close aid) w1)
            else check_empty_loop e aid fa end_addr (addr + 64) w1)
      else (Inr True, do_call (Flash_area_close aid) w))"
  by pat_completeness auto
termination
  by (relation "measure (\<lambda>(e, aid, fa, end_addr, addr, w). end_addr - addr)") auto

text \<open>
  \<^verbatim>\<open>zephyr_img_mgmt_flash_check_empty\<close>; its parameter \<^verbatim>\<open>fa_id\<close> is a \<^verbatim>\<open>uint8_t\<close>, and it
  asserts \<^verbatim>\<open>fa->fa_size % 4 == 0\<close>. The board variant scans the first 512 bytes only.
\<close>

definition zephyr_img_mgmt_flash_check_empty ::
  "env \<Rightarrow> u8 \<Rightarrow> world \<Rightarrow> fatal + ((int + bool) \<times> world)" where
  "zephyr_img_mgmt_flash_check_empty e fa_id8 w =
     (let aid = uint fa_id8;
          opened = flash_area_open e aid;
          w1 = do_call (Flash_area_open aid) w
      in if fst opened \<noteq> 0 then Inr (Inl MGMT_ERR_EUNKNOWN, w1)
         else if \<not> NDEBUG e \<and> fa_size (snd opened) mod 4 \<noteq> 0 then Inl ASSERT_fa_size
         else
           (let end_addr = (if CONFIG_BOARD_SCORPIO e
                            then min 512 (fa_size (snd opened))
                            else fa_size (snd opened))
            in Inr (check_empty_loop e aid (snd opened) end_addr 0 w1)))"

subsection \<open>Upload inspection\<close>

type_synonym inspect_result =
  "fatal + ((int \<times> img_mgmt_upload_action \<times> errstr option) \<times> world)"

text \<open>
  A return of \<^verbatim>\<open>img_mgmt_impl_upload_inspect\<close>: the code, the action as filled so far,
  and what \<^verbatim>\<open>*errstr\<close> was set to (\<open>None\<close> when it was not set).
\<close>

definition ret ::
  "int \<Rightarrow> img_mgmt_upload_action \<Rightarrow> errstr option \<Rightarrow> world \<Rightarrow> inspect_result" where
  "ret rc action es w = Inr ((rc, action, es), w)"

text \<open>\<^verbatim>\<open>memset(action, 0, sizeof *action)\<close>.\<close>

definition action_zero :: img_mgmt_upload_action where
  "action_zero =
     \<lparr>act_size = 0, act_write_bytes = 0, act_area_id = 0,
      act_proceed = False, act_erase = False\<rparr>"

text \<open>
  The end of the function, from the comment \<^verbatim>\<open>Calculate size of flash write\<close> on.
  \<^verbatim>\<open>rem_bytes\<close> is a \<^verbatim>\<open>uint8_t\<close>, as is what \<^verbatim>\<open>flash_area_align\<close> returns; a zero
  alignment makes \<^verbatim>\<open>%\<close> undefined.
\<close>

definition upload_write_size ::
  "env \<Rightarrow> img_mgmt_upload_req \<Rightarrow> img_mgmt_upload_action \<Rightarrow> world \<Rightarrow> inspect_result" where
  "upload_write_size e req action w =
     (let action1 = action\<lparr>act_write_bytes := int (req_data_len req)\<rparr> in
      if req_off req + int (req_data_len req) < act_size action1 then
        (let opened = flash_area_open e (act_area_id action1);
             w1 = do_call (Flash_area_open (act_area_id action1)) w
         in if fst opened \<noteq> 0
            then ret MGMT_ERR_EUNKNOWN action1 (Some img_mgmt_err_str_flash_open_failed) w1
            else if fa_align (snd opened) = 0 then Inl DIVISION_BY_ZERO
            else
              (let rem_bytes :: u8 =
                     word_of_nat (req_data_len req mod unat (fa_align (snd opened)));
                   w2 = do_call (Flash_area_close (act_area_id action1)) w1;
                   action2 =
                     (if rem_bytes \<noteq> 0
                      then action1\<lparr>act_write_bytes := act_write_bytes action1 - uint rem_bytes\<rparr>
                      else action1)
               in ret 0 (action2\<lparr>act_proceed := True\<rparr>) None w2))
      else ret 0 (action1\<lparr>act_proceed := True\<rparr>) None w)"

text \<open>The emptiness check of the first chunk, skipped under lazy erase.\<close>

definition upload_check_erase ::
  "env \<Rightarrow> img_mgmt_upload_req \<Rightarrow> img_mgmt_upload_action \<Rightarrow> world \<Rightarrow> inspect_result" where
  "upload_check_erase e req action w =
     (if IMG_MGMT_LAZY_ERASE e then upload_write_size e req action w
      else
        (case zephyr_img_mgmt_flash_check_empty e (word_of_int (act_area_id action)) w of
           Inl f \<Rightarrow> Inl f
         | Inr (Inl rc, w1) \<Rightarrow> ret MGMT_ERR_EUNKNOWN action None w1
         | Inr (Inr is_empty, w1) \<Rightarrow>
             upload_write_size e req (action\<lparr>act_erase := \<not> is_empty\<rparr>) w1))"

text \<open>The block \<^verbatim>\<open>if (req->upgrade)\<close>.\<close>

definition upload_check_upgrade ::
  "env \<Rightarrow> img_mgmt_upload_req \<Rightarrow> img_mgmt_upload_action \<Rightarrow> world \<Rightarrow> inspect_result" where
  "upload_check_upgrade e req action w =
     (if req_upgrade req then
        (let ver = img_mgmt_my_version e;
             w1 = do_call Img_mgmt_my_version w
         in if fst ver \<noteq> 0 then ret MGMT_ERR_EUNKNOWN action None w1
            else if img_mgmt_vercmp (snd ver) (ih_ver (req_hdr req)) \<ge> 0
            then ret MGMT_ERR_EBADSTATE action (Some img_mgmt_err_str_downgrade) w1
            else upload_check_erase e req action w1)
      else upload_check_erase e req action w)"

text \<open>The block under \<^verbatim>\<open>CONFIG_IMG_MGMT_REJECT_DIRECT_XIP_MISMATCHED_SLOT\<close>.\<close>

definition upload_check_xip ::
  "env \<Rightarrow> img_mgmt_upload_req \<Rightarrow> img_mgmt_upload_action \<Rightarrow> world \<Rightarrow> inspect_result" where
  "upload_check_xip e req action w =
     (if CONFIG_IMG_MGMT_REJECT_DIRECT_XIP_MISMATCHED_SLOT e
         \<and> ih_flags (req_hdr req) AND IMAGE_F_ROM_FIXED_ADDR e \<noteq> 0 then
        (let opened = flash_area_open e (act_area_id action);
             w1 = do_call (Flash_area_open (act_area_id action)) w
         in if fst opened \<noteq> 0
            then ret MGMT_ERR_EUNKNOWN action (Some img_mgmt_err_str_flash_open_failed) w1
            else if fa_off (snd opened) \<noteq> unat (ih_load_addr (req_hdr req))
            then ret MGMT_ERR_EINVAL action (Some img_mgmt_err_str_image_bad_flash_addr)
                   (do_call (Flash_area_close (act_area_id action)) w1)
            else upload_check_upgrade e req action
                   (do_call (Flash_area_close (act_area_id action)) w1))
      else upload_check_upgrade e req action w)"

text \<open>
  Whether the request names the upload in progress: the test before \<^verbatim>\<open>return 0\<close> in
  the first-chunk branch. \<^verbatim>\<open>memcmp\<close> compares the first \<^verbatim>\<open>req->data_sha_len\<close> bytes.
\<close>

definition upload_resumes :: "img_mgmt_state \<Rightarrow> img_mgmt_upload_req \<Rightarrow> bool" where
  "upload_resumes g req =
     (req_data_sha_len req > 0 \<and> st_area_id g \<noteq> - 1
      \<and> st_data_sha_len g = req_data_sha_len req
      \<and> take (req_data_sha_len req) (st_data_sha g)
          = take (req_data_sha_len req) (req_data_sha req))"

text \<open>The branch \<^verbatim>\<open>req->off == 0\<close>: the first chunk of an upload.\<close>

definition upload_first_chunk ::
  "env \<Rightarrow> img_mgmt_upload_req \<Rightarrow> img_mgmt_upload_action \<Rightarrow> world \<Rightarrow> inspect_result" where
  "upload_first_chunk e req action w =
     (if req_data_len req < sizeof_image_header e
      then ret MGMT_ERR_EINVAL action (Some img_mgmt_err_str_hdr_malformed) w
      else if req_size req = - 1
      then ret MGMT_ERR_EINVAL action (Some img_mgmt_err_str_hdr_malformed) w
      else
        (let action1 = action\<lparr>act_size := req_size req\<rparr> in
         if ih_magic (req_hdr req) \<noteq> IMAGE_MAGIC e
         then ret MGMT_ERR_EINVAL action1 (Some img_mgmt_err_str_magic_mismatch) w
         else if req_data_sha_len req > IMG_MGMT_DATA_SHA_LEN e
         then ret MGMT_ERR_EINVAL action1 None w
         else if upload_resumes (g_img_mgmt_state w) req
         then ret 0 action1 None w
         else
           (case img_mgmt_get_unused_slot_area_id e (req_image req - 1) of
              Inl f \<Rightarrow> Inl f
            | Inr aid \<Rightarrow>
                (let action2 = action1\<lparr>act_area_id := aid\<rparr> in
                 if act_area_id action2 < 0
                 then ret MGMT_ERR_ENOMEM action2 (Some img_mgmt_err_str_no_slot) w
                 else upload_check_xip e req action2 w))))"

text \<open>The branch of a later chunk.\<close>

definition upload_continuation ::
  "env \<Rightarrow> img_mgmt_upload_req \<Rightarrow> img_mgmt_upload_action \<Rightarrow> world \<Rightarrow> inspect_result" where
  "upload_continuation e req action w =
     (let action1 = action\<lparr>act_area_id := st_area_id (g_img_mgmt_state w),
                           act_size := uint (st_size (g_img_mgmt_state w))\<rparr>
      in if req_off req \<noteq> uint (st_off (g_img_mgmt_state w))
         then ret 0 action1 None w
         else upload_write_size e req action1 w)"

text \<open>\<^verbatim>\<open>img_mgmt_impl_upload_inspect\<close>.\<close>

definition img_mgmt_impl_upload_inspect ::
  "env \<Rightarrow> img_mgmt_upload_req \<Rightarrow> world \<Rightarrow> inspect_result" where
  "img_mgmt_impl_upload_inspect e req w =
     (if req_off req = - 1
      then ret MGMT_ERR_EINVAL action_zero (Some img_mgmt_err_str_hdr_malformed) w
      else if req_off req = 0 then upload_first_chunk e req action_zero w
      else upload_continuation e req action_zero w)"

subsection \<open>Notions of the specification\<close>

text \<open>Whether a derived flag set has a flag, and the slots among 0 and 1 that are Active.\<close>

definition has_flag :: "fatal + u8 \<Rightarrow> u8 \<Rightarrow> bool" where
  "has_flag r f = (case r of Inl _ \<Rightarrow> False | Inr flags \<Rightarrow> flags AND f \<noteq> 0)"

definition active_slots :: "env \<Rightarrow> int list" where
  "active_slots e =
     filter (\<lambda>slot. has_flag (img_mgmt_state_flags e slot) IMG_MGMT_STATE_F_ACTIVE) [0, 1]"



text \<open>
  The spec's version comparison: lexicographic on major, minor and revision, the build
  number left out.
\<close>

definition version_less :: "image_version \<Rightarrow> image_version \<Rightarrow> bool" where
  "version_less a b =
     (iv_major a < iv_major b
      \<or> (iv_major a = iv_major b
          \<and> (iv_minor a < iv_minor b
              \<or> (iv_minor a = iv_minor b \<and> iv_revision a < iv_revision b))))"

definition spec_version_compare :: "image_version \<Rightarrow> image_version \<Rightarrow> int" where
  "spec_version_compare a b =
     (if version_less a b then - 1 else if version_less b a then 1 else 0)"

text \<open>
  The checks of a first chunk that come before the resumption test: the chunk holds a
  whole header, the total size is given, the magic is right, the hash is not too long.
\<close>

definition header_checks_pass :: "env \<Rightarrow> img_mgmt_upload_req \<Rightarrow> bool" where
  "header_checks_pass e req =
     (sizeof_image_header e \<le> req_data_len req \<and> req_size req \<noteq> - 1
      \<and> ih_magic (req_hdr req) = IMAGE_MAGIC e
      \<and> req_data_sha_len req \<le> IMG_MGMT_DATA_SHA_LEN e)"

text \<open>
  What \<^verbatim>\<open>img_mgmt_state_set_pending\<close> does after its label \<^verbatim>\<open>done\<close>: the hash it reads
  (\<open>None\<close> when \<^verbatim>\<open>img_mgmt_read_info\<close> fails), the logger it calls, and the two calls in
  order.
\<close>

definition hash_read :: "env \<Rightarrow> int \<Rightarrow> u8 list option" where
  "hash_read e slot =
     (if fst (img_mgmt_read_info e slot) \<noteq> 0 then None
      else Some (snd (img_mgmt_read_info e slot)))"

definition logged :: "int \<Rightarrow> int \<Rightarrow> u8 list option \<Rightarrow> call" where
  "logged permanent rc hashp =
     (if permanent \<noteq> 0 then Img_mgmt_impl_log_confirm rc hashp
      else Img_mgmt_impl_log_pending rc hashp)"

definition log_tail :: "env \<Rightarrow> int \<Rightarrow> int \<Rightarrow> int \<Rightarrow> call list" where
  "log_tail e slot permanent rc =
     [Img_mgmt_read_info slot, logged permanent rc (hash_read e slot)]"

text \<open>
  The write length of an action for a request: clamped below the total size, the chunk
  length at or beyond it.
\<close>

definition write_len_ok ::
  "env \<Rightarrow> img_mgmt_upload_req \<Rightarrow> img_mgmt_upload_action \<Rightarrow> bool" where
  "write_len_ok e req a =
     (if req_off req + int (req_data_len req) < act_size a
      then fst (flash_area_open e (act_area_id a)) = 0
         \<and> fa_align (snd (flash_area_open e (act_area_id a))) \<noteq> 0
         \<and> act_write_bytes a
             = int (req_data_len req
                    - req_data_len req
                      mod unat (fa_align (snd (flash_area_open e (act_area_id a)))))
      else act_write_bytes a = int (req_data_len req))"

text \<open>
  The flash-address check of a first chunk: whether it applies, whether the request
  passes it for the area \<open>aid\<close>, and the calls it makes when it passes.
\<close>

definition xip_check_applies :: "env \<Rightarrow> img_mgmt_upload_req \<Rightarrow> bool" where
  "xip_check_applies e req =
     (CONFIG_IMG_MGMT_REJECT_DIRECT_XIP_MISMATCHED_SLOT e
      \<and> ih_flags (req_hdr req) AND IMAGE_F_ROM_FIXED_ADDR e \<noteq> 0)"

definition xip_check_passes :: "env \<Rightarrow> img_mgmt_upload_req \<Rightarrow> int \<Rightarrow> bool" where
  "xip_check_passes e req aid =
     (if xip_check_applies e req
      then fst (flash_area_open e aid) = 0
         \<and> fa_off (snd (flash_area_open e aid)) = unat (ih_load_addr (req_hdr req))
      else True)"

definition xip_check_calls :: "env \<Rightarrow> img_mgmt_upload_req \<Rightarrow> int \<Rightarrow> call list" where
  "xip_check_calls e req aid =
     (if xip_check_applies e req then [Flash_area_open aid, Flash_area_close aid] else [])"

text \<open>
  What a step of the inspection that starts from \<open>action\<close> may return: an action with
  \<open>proceed\<close> set comes with the code 0, the right write length and the size and area of
  \<open>action\<close>.
\<close>

definition proceed_ok ::
  "env \<Rightarrow> img_mgmt_upload_req \<Rightarrow> img_mgmt_upload_action \<Rightarrow> int
     \<Rightarrow> img_mgmt_upload_action \<Rightarrow> bool" where
  "proceed_ok e req action rc a =
     (act_proceed a \<longrightarrow> rc = 0 \<and> write_len_ok e req a
        \<and> act_size a = act_size action \<and> act_area_id a = act_area_id action)"

subsection \<open>Sample environments\<close>

definition sample_version :: image_version where
  "sample_version = \<lparr>iv_major = 1, iv_minor = 2, iv_revision = 3, iv_build_num = 9\<rparr>"

definition sample_area :: "int \<Rightarrow> flash_area" where
  "sample_area i =
     \<lparr>fa_id = i, fa_off = 0, fa_size = 128, fa_erased_val = 0xFF, fa_align = 8\<rparr>"

text \<open>
  A device that runs slot 0 with no swap requested, built with assertions; every
  collaborator succeeds, the flash is erased, and the loggers report that the entry was
  written.
\<close>

definition sample_env :: env where
  "sample_env =
     \<lparr>NDEBUG = False,
      CONFIG_BOARD_SCORPIO = False,
      CONFIG_IMG_MGMT_REJECT_DIRECT_XIP_MISMATCHED_SLOT = False,
      IMG_MGMT_LAZY_ERASE = False,
      IMG_MGMT_BOOT_CURR_SLOT = 0,
      FLASH_AREA_ID_image_0 = 1,
      FLASH_AREA_ID_image_1 = 2,
      FLASH_AREA_ID_image_2 = None,
      FLASH_AREA_ID_image_3 = None,
      sizeof_image_header = 32,
      IMAGE_MAGIC = 0x96f3b83d,
      IMAGE_F_ROM_FIXED_ADDR = 0x100,
      IMG_MGMT_DATA_SHA_LEN = 32,
      mcuboot_swap_type = BOOT_SWAP_TYPE_NONE,
      boot_read_swap_state_by_id = (\<lambda>i. \<lparr>magic = 3, copy_done = 3, image_ok = 3\<rparr>),
      boot_request_upgrade = (\<lambda>permanent. 0),
      boot_write_img_confirmed = 0,
      img_mgmt_read_info = (\<lambda>slot. (0, [0xAB, 0xCD])),
      img_mgmt_my_version = (0, sample_version),
      img_mgmt_impl_log_pending = (\<lambda>status hash. 0),
      img_mgmt_impl_log_confirm = (\<lambda>status hash. 0),
      flash_area_open = (\<lambda>i. (0, sample_area i)),
      flash_area_read = (\<lambda>fa addr n. (0, replicate n 0xFF))\<rparr>"

definition env_with_swap :: "int \<Rightarrow> env" where
  "env_with_swap swap = sample_env\<lparr>mcuboot_swap_type := swap\<rparr>"

text \<open>The same device built without assertions, the bootloader reporting \<open>swap\<close>.\<close>

definition env_ndebug :: "int \<Rightarrow> env" where
  "env_ndebug swap = sample_env\<lparr>NDEBUG := True, mcuboot_swap_type := swap\<rparr>"

definition idle_world :: world where
  "idle_world =
     \<lparr>g_img_mgmt_state =
        \<lparr>st_area_id = - 1, st_off = 0, st_size = 0, st_data_sha_len = 0, st_data_sha = []\<rparr>,
      calls = []\<rparr>"

text \<open>An upload to area 2 of 900 bytes, 304 of them written, with fingerprint 1, 2, 3.\<close>

definition uploading_world :: world where
  "uploading_world =
     \<lparr>g_img_mgmt_state =
        \<lparr>st_area_id = 2, st_off = 304, st_size = 900, st_data_sha_len = 3,
         st_data_sha = [1, 2, 3]\<rparr>,
      calls = []\<rparr>"

definition sample_header :: image_header where
  "sample_header =
     \<lparr>ih_magic = 0x96f3b83d, ih_load_addr = 0, ih_flags = 0, ih_ver = sample_version\<rparr>"

text \<open>A first chunk of 300 bytes of a 900 byte image, with the fingerprint 1, 2, 3.\<close>

definition first_chunk :: img_mgmt_upload_req where
  "first_chunk =
     \<lparr>req_image = 0, req_off = 0, req_size = 900, req_data_len = 300,
      req_data_sha_len = 3, req_hdr = sample_header, req_data_sha = [1, 2, 3],
      req_upgrade = False\<rparr>"

text \<open>A later chunk of 300 bytes at offset \<open>off\<close>.\<close>

definition later_chunk :: "int \<Rightarrow> img_mgmt_upload_req" where
  "later_chunk off =
     \<lparr>req_image = 0, req_off = off, req_size = - 1, req_data_len = 300,
      req_data_sha_len = 0, req_hdr = sample_header, req_data_sha = [],
      req_upgrade = False\<rparr>"

text \<open>The same first chunk, for an upgrade only; its version is the running one.\<close>

definition upgrade_chunk :: img_mgmt_upload_req where
  "upgrade_chunk = first_chunk\<lparr>req_upgrade := True\<rparr>"

text \<open>A first chunk for an upgrade only of version 1.3.3, above the running 1.2.3.\<close>

definition newer_chunk :: img_mgmt_upload_req where
  "newer_chunk =
     first_chunk\<lparr>req_hdr := sample_header\<lparr>ih_ver := sample_version\<lparr>iv_minor := 3\<rparr>\<rparr>,
                 req_upgrade := True\<rparr>"

text \<open>The upload of \<open>uploading_world\<close> with 600 bytes written.\<close>

definition last_chunk_world :: world where
  "last_chunk_world =
     \<lparr>g_img_mgmt_state =
        \<lparr>st_area_id = 2, st_off = 600, st_size = 900, st_data_sha_len = 3,
         st_data_sha = [1, 2, 3]\<rparr>,
      calls = []\<rparr>"


section \<open>Properties\<close>

subsection \<open>Auxiliary facts\<close>

lemmas state_flag_defs =
  IMG_MGMT_STATE_F_PENDING_def IMG_MGMT_STATE_F_CONFIRMED_def
  IMG_MGMT_STATE_F_ACTIVE_def IMG_MGMT_STATE_F_PERMANENT_def

lemmas swap_type_defs =
  IMG_MGMT_SWAP_TYPE_NONE_def IMG_MGMT_SWAP_TYPE_TEST_def
  IMG_MGMT_SWAP_TYPE_PERM_def IMG_MGMT_SWAP_TYPE_REVERT_def
  BOOT_SWAP_TYPE_NONE_def BOOT_SWAP_TYPE_TEST_def
  BOOT_SWAP_TYPE_PERM_def BOOT_SWAP_TYPE_REVERT_def

lemmas mgmt_err_defs =
  MGMT_ERR_EOK_def MGMT_ERR_EUNKNOWN_def MGMT_ERR_ENOMEM_def
  MGMT_ERR_EINVAL_def MGMT_ERR_EBADSTATE_def

lemma mgmt_err_nonzero:
  "MGMT_ERR_EUNKNOWN \<noteq> 0" "MGMT_ERR_ENOMEM \<noteq> 0" "MGMT_ERR_EINVAL \<noteq> 0"
  "MGMT_ERR_EBADSTATE \<noteq> 0"
  by (simp_all add: mgmt_err_defs)

lemma mgmt_err_distinct:
  "MGMT_ERR_EUNKNOWN \<noteq> MGMT_ERR_EBADSTATE" "MGMT_ERR_EINVAL \<noteq> MGMT_ERR_EBADSTATE"
  "MGMT_ERR_ENOMEM \<noteq> MGMT_ERR_EBADSTATE"
  by (simp_all add: mgmt_err_defs)

text \<open>The flags of the two slots in the sample environments.\<close>

lemma sample_flags:
  "img_mgmt_state_flags sample_env 0
     = Inr (IMG_MGMT_STATE_F_CONFIRMED OR IMG_MGMT_STATE_F_ACTIVE)"
  "img_mgmt_state_flags sample_env 1 = Inr 0"
  by (simp_all add: sample_env_def img_mgmt_state_flags_def
        img_mgmt_impl_swap_type_def swap_type_flags_def swap_type_defs)

lemma revert_flags:
  "img_mgmt_state_flags (env_with_swap BOOT_SWAP_TYPE_REVERT) 0 = Inr IMG_MGMT_STATE_F_ACTIVE"
  "img_mgmt_state_flags (env_with_swap BOOT_SWAP_TYPE_REVERT) 1
     = Inr IMG_MGMT_STATE_F_CONFIRMED"
  by (simp_all add: env_with_swap_def sample_env_def img_mgmt_state_flags_def
        img_mgmt_impl_swap_type_def swap_type_flags_def swap_type_defs)

lemma test_flags:
  "img_mgmt_state_flags (env_with_swap BOOT_SWAP_TYPE_TEST) 0 = Inr IMG_MGMT_STATE_F_CONFIRMED"
  "img_mgmt_state_flags (env_with_swap BOOT_SWAP_TYPE_TEST) 1
     = Inr IMG_MGMT_STATE_F_PENDING"
  by (simp_all add: env_with_swap_def sample_env_def img_mgmt_state_flags_def
        img_mgmt_impl_swap_type_def swap_type_flags_def swap_type_defs)

text \<open>
  In a build with assertions (and without the board variant) an unknown swap type stops
  the flag derivation; the default branch of its switch leaves the flags empty.
\<close>

lemma unknown_swap_type_asserted:
  assumes "\<not> NDEBUG e" and "\<not> CONFIG_BOARD_SCORPIO e"
    and "mcuboot_swap_type e \<noteq> BOOT_SWAP_TYPE_NONE"
    and "mcuboot_swap_type e \<noteq> BOOT_SWAP_TYPE_TEST"
    and "mcuboot_swap_type e \<noteq> BOOT_SWAP_TYPE_PERM"
    and "mcuboot_swap_type e \<noteq> BOOT_SWAP_TYPE_REVERT"
  shows "img_mgmt_impl_swap_type e = Inl ASSERT_swap_type"
    and "img_mgmt_state_flags e slot \<noteq> Inr flags"
proof -
  show stop: "img_mgmt_impl_swap_type e = Inl ASSERT_swap_type"
    using assms by (simp add: img_mgmt_impl_swap_type_def)
  show "img_mgmt_state_flags e slot \<noteq> Inr flags"
    using assms(2) stop by (simp add: img_mgmt_state_flags_def)
qed

lemma swap_type_flags_default:
  assumes "t \<noteq> IMG_MGMT_SWAP_TYPE_NONE" and "t \<noteq> IMG_MGMT_SWAP_TYPE_TEST"
    and "t \<noteq> IMG_MGMT_SWAP_TYPE_PERM" and "t \<noteq> IMG_MGMT_SWAP_TYPE_REVERT"
  shows "swap_type_flags e slot t = 0"
  using assms by (simp add: swap_type_flags_def)

text \<open>The selection loop, one round at a time.\<close>

lemma auto_select_2: "auto_select e 2 = Inr (- 1)"
  by (subst auto_select.simps) simp

lemma flash_area_id_range:
  "0 \<le> zephyr_img_mgmt_flash_area_id e slot \<and> zephyr_img_mgmt_flash_area_id e slot < 256"
proof -
  have "0 \<le> uint (x :: u8) \<and> uint x < 256" for x
    using uint_lt2p [of x] by simp
  then show ?thesis
    unfolding zephyr_img_mgmt_flash_area_id_def Let_def by blast
qed

lemma flash_area_id_not_minus_1: "zephyr_img_mgmt_flash_area_id e slot \<noteq> - 1"
  using flash_area_id_range [of e slot] by linarith

lemma auto_select_1:
  "auto_select e 1 =
     (case img_mgmt_slot_in_use e 1 of
        Inl f \<Rightarrow> Inl f
      | Inr u \<Rightarrow> if u = 0 then Inr (zephyr_img_mgmt_flash_area_id e 1) else Inr (- 1))"
  by (subst auto_select.simps)
     (simp add: auto_select_2 flash_area_id_not_minus_1 Let_def split: sum.splits)

lemma auto_select_0:
  "auto_select e 0 =
     (case img_mgmt_slot_in_use e 0 of
        Inl f \<Rightarrow> Inl f
      | Inr u \<Rightarrow> if u = 0 then Inr (zephyr_img_mgmt_flash_area_id e 0) else auto_select e 1)"
  by (subst auto_select.simps)
     (simp add: flash_area_id_not_minus_1 Let_def split: sum.splits)




text \<open>The version comparison against the spec's.\<close>

lemma vercmp_spec: "img_mgmt_vercmp a b = spec_version_compare a b"
proof -
  have gt: "\<not> x < y \<and> x \<noteq> y" if "y < x" for x y :: "'a :: len word"
    using that by auto
  show ?thesis
  proof (cases "iv_major a" "iv_major b" rule: linorder_cases)
    case less
    then show ?thesis
      by (simp add: img_mgmt_vercmp_def spec_version_compare_def version_less_def)
  next
    case greater
    then show ?thesis
      using gt [OF greater]
      by (simp add: img_mgmt_vercmp_def spec_version_compare_def version_less_def)
  next
    case equal
    note major = equal
    show ?thesis
    proof (cases "iv_minor a" "iv_minor b" rule: linorder_cases)
      case less
      with major show ?thesis
        by (simp add: img_mgmt_vercmp_def spec_version_compare_def version_less_def)
    next
      case greater
      with major show ?thesis
        using gt [OF greater]
        by (simp add: img_mgmt_vercmp_def spec_version_compare_def version_less_def)
    next
      case equal
      note minor = equal
      show ?thesis
      proof (cases "iv_revision a" "iv_revision b" rule: linorder_cases)
        case less
        with major minor show ?thesis
          by (simp add: img_mgmt_vercmp_def spec_version_compare_def version_less_def)
      next
        case greater
        with major minor show ?thesis
          using gt [OF greater]
          by (simp add: img_mgmt_vercmp_def spec_version_compare_def version_less_def)
      next
        case equal
        with major minor show ?thesis
          by (simp add: img_mgmt_vercmp_def spec_version_compare_def version_less_def)
      qed
    qed
  qed
qed

lemma vercmp_ge_0: "img_mgmt_vercmp a b \<ge> 0 \<longleftrightarrow> \<not> version_less a b"
  by (simp add: vercmp_spec spec_version_compare_def)

lemma vercmp_build:
  "img_mgmt_vercmp (a\<lparr>iv_build_num := x\<rparr>) (b\<lparr>iv_build_num := y\<rparr>) = img_mgmt_vercmp a b"
  by (simp add: img_mgmt_vercmp_def)

text \<open>\<^verbatim>\<open>img_mgmt_state_set_pending\<close>, branch by branch.\<close>

lemma set_pending_unfold:
  assumes "img_mgmt_state_flags e slot = Inr flags"
  shows "img_mgmt_state_set_pending e slot permanent w =
    (if flags AND IMG_MGMT_STATE_F_CONFIRMED \<noteq> 0 \<and> slot \<noteq> 0
     then Inr (MGMT_ERR_EBADSTATE,
               w\<lparr>calls := calls w @ log_tail e slot permanent MGMT_ERR_EBADSTATE\<rparr>)
     else if slot \<noteq> 1
     then Inr (MGMT_ERR_EUNKNOWN,
               w\<lparr>calls := calls w @ log_tail e slot permanent MGMT_ERR_EUNKNOWN\<rparr>)
     else if boot_request_upgrade e (of_bool (permanent \<noteq> 0)) \<noteq> 0
     then Inr (MGMT_ERR_EUNKNOWN,
               w\<lparr>calls := calls w @ [Boot_request_upgrade (of_bool (permanent \<noteq> 0))]
                    @ log_tail e slot permanent MGMT_ERR_EUNKNOWN\<rparr>)
     else Inr (0, w\<lparr>calls := calls w @ [Boot_request_upgrade (of_bool (permanent \<noteq> 0))]
                    @ log_tail e slot permanent 0\<rparr>))"
  by (simp add: img_mgmt_state_set_pending_def assms img_mgmt_impl_write_pending_def
      mgmt_err_nonzero do_call_def log_tail_def logged_def hash_read_def Let_def split_def)

text \<open>\<^verbatim>\<open>img_mgmt_state_confirm\<close>, with and without a pending slot.\<close>

lemma confirm_when_pending:
  assumes "img_mgmt_state_any_pending e = Inr p" and "p \<noteq> 0"
  shows "img_mgmt_state_confirm e w
    = Inr (img_mgmt_impl_log_confirm e MGMT_ERR_EBADSTATE None,
           do_call (Img_mgmt_impl_log_confirm MGMT_ERR_EBADSTATE None) w)"
  using assms by (simp add: img_mgmt_state_confirm_def)

lemma confirm_when_none_pending:
  assumes "img_mgmt_state_any_pending e = Inr 0"
  shows "img_mgmt_state_confirm e w
    = (let rc = (if boot_write_img_confirmed e \<noteq> 0 then MGMT_ERR_EUNKNOWN else 0) in
       Inr (img_mgmt_impl_log_confirm e rc None,
           w\<lparr>calls := calls w @ [Boot_write_img_confirmed, Img_mgmt_dfu_confirmed,
                                  Img_mgmt_impl_log_confirm rc None]\<rparr>))"
  using assms
  by (simp add: img_mgmt_state_confirm_def img_mgmt_impl_write_confirmed_def do_call_def
      Let_def)

lemma any_pending_iff:
  assumes "img_mgmt_state_flags e 0 = Inr f0" and "img_mgmt_state_flags e 1 = Inr f1"
  shows "img_mgmt_state_any_pending e
    = Inr (if f0 AND IMG_MGMT_STATE_F_PENDING \<noteq> 0 \<or> f1 AND IMG_MGMT_STATE_F_PENDING \<noteq> 0
           then 1 else 0)"
  using assms by (simp add: img_mgmt_state_any_pending_def)

text \<open>The remainder that \<^verbatim>\<open>rem_bytes\<close> holds fits its byte.\<close>

lemma uint_rem_bytes:
  assumes "a \<noteq> 0"
  shows "uint (word_of_nat (n mod unat a) :: u8) = int (n mod unat (a :: u8))"
proof -
  have "unat a < 256" using unsigned_less [of a, where ?'a = nat] by simp
  moreover have "0 < unat a" using assms by (simp add: unat_gt_0)
  ultimately have "n mod unat a < 256"
    using mod_less_divisor [of "unat a" n] by linarith
  then have "unat (word_of_nat (n mod unat a) :: u8) = n mod unat a"
    by (simp add: unat_of_nat)
  then show ?thesis by (metis uint_nat)
qed

lemma rem_bytes_zero:
  assumes "a \<noteq> 0"
  shows "(word_of_nat (n mod unat a) :: u8) = 0 \<longleftrightarrow> n mod unat (a :: u8) = 0"
proof -
  have "uint (word_of_nat (n mod unat a) :: u8) = 0 \<longleftrightarrow> n mod unat a = 0"
    by (simp add: uint_rem_bytes [OF assms])
  then show ?thesis by (simp add: uint_0_iff)
qed

lemma write_size_result:
  assumes "upload_write_size e req action w = Inr ((rc, a, es), w')"
    and "\<not> act_proceed action"
  shows "rc = 0 \<longrightarrow> act_proceed a \<and> write_len_ok e req a"
    and "rc \<noteq> 0 \<longrightarrow> rc = MGMT_ERR_EUNKNOWN \<and> es = Some img_mgmt_err_str_flash_open_failed"
    and "act_size a = act_size action" and "act_area_id a = act_area_id action"
    and "act_proceed a \<longrightarrow> rc = 0"
  using assms
  by (auto simp: upload_write_size_def ret_def write_len_ok_def Let_def uint_rem_bytes
      rem_bytes_zero mgmt_err_nonzero split: if_splits)

lemma write_size_rc:
  assumes "upload_write_size e req action w = Inr ((rc, a, es), w')"
  shows "rc \<noteq> MGMT_ERR_EBADSTATE \<and> es \<noteq> Some img_mgmt_err_str_downgrade"
  using assms
  by (auto simp: upload_write_size_def ret_def Let_def mgmt_err_defs split: if_splits)

text \<open>
  The steps of the inspection: only the last one sets \<open>proceed\<close>, and none after the
  version check returns the bad-state code.
\<close>

lemma check_erase_result:
  assumes "upload_check_erase e req action w = Inr ((rc, a, es), w')"
    and "\<not> act_proceed action"
  shows "act_proceed a \<longrightarrow> rc = 0 \<and> write_len_ok e req a
           \<and> act_size a = act_size action \<and> act_area_id a = act_area_id action"
    and "rc \<noteq> MGMT_ERR_EBADSTATE \<and> es \<noteq> Some img_mgmt_err_str_downgrade"
proof -
  consider (lazy) "IMG_MGMT_LAZY_ERASE e"
      "upload_write_size e req action w = Inr ((rc, a, es), w')"
    | (err) w1 where "\<not> IMG_MGMT_LAZY_ERASE e"
      "ret MGMT_ERR_EUNKNOWN action None w1 = Inr ((rc, a, es), w')"
    | (scan) b w1 where "\<not> IMG_MGMT_LAZY_ERASE e"
      "upload_write_size e req (action\<lparr>act_erase := \<not> b\<rparr>) w1 = Inr ((rc, a, es), w')"
    using assms(1)
    by (auto simp: upload_check_erase_def split: if_splits sum.splits prod.splits)
  then have "(act_proceed a \<longrightarrow> rc = 0 \<and> write_len_ok e req a
           \<and> act_size a = act_size action \<and> act_area_id a = act_area_id action)
     \<and> rc \<noteq> MGMT_ERR_EBADSTATE \<and> es \<noteq> Some img_mgmt_err_str_downgrade"
  proof cases
    case lazy
    then show ?thesis
      using write_size_result [OF lazy(2) assms(2)] write_size_rc [OF lazy(2)] by simp
  next
    case err
    then show ?thesis
      using assms(2) by (auto simp: ret_def mgmt_err_defs)
  next
    case scan
    have np: "\<not> act_proceed (action\<lparr>act_erase := \<not> b\<rparr>)" using assms(2) by simp
    show ?thesis
      using write_size_result [OF scan(2) np] write_size_rc [OF scan(2)] by simp
  qed
  then show "act_proceed a \<longrightarrow> rc = 0 \<and> write_len_ok e req a
           \<and> act_size a = act_size action \<and> act_area_id a = act_area_id action"
    and "rc \<noteq> MGMT_ERR_EBADSTATE \<and> es \<noteq> Some img_mgmt_err_str_downgrade"
    by simp_all
qed

lemma ret_proceed_ok:
  assumes "ret rc0 action es0 w0 = Inr ((rc, a, es), w')" and "\<not> act_proceed action"
  shows "proceed_ok e req action rc a"
  using assms by (auto simp: ret_def proceed_ok_def)

lemma check_erase_proceed_ok:
  assumes "upload_check_erase e req action w = Inr ((rc, a, es), w')"
    and "\<not> act_proceed action"
  shows "proceed_ok e req action rc a"
  using check_erase_result(1) [OF assms] by (simp add: proceed_ok_def)

lemma check_upgrade_proceed_ok:
  assumes "upload_check_upgrade e req action w = Inr ((rc, a, es), w')"
    and "\<not> act_proceed action"
  shows "proceed_ok e req action rc a"
proof -
  consider (r) rc0 es0 w0 where "ret rc0 action es0 w0 = Inr ((rc, a, es), w')"
    | (n) w0 where "upload_check_erase e req action w0 = Inr ((rc, a, es), w')"
    using assms(1)
    by (auto simp: upload_check_upgrade_def Let_def split: if_splits)
  then show ?thesis
  proof cases
    case r
    then show ?thesis using assms(2) by (rule ret_proceed_ok)
  next
    case n
    then show ?thesis using assms(2) by (rule check_erase_proceed_ok)
  qed
qed

lemma check_xip_proceed_ok:
  assumes "upload_check_xip e req action w = Inr ((rc, a, es), w')"
    and "\<not> act_proceed action"
  shows "proceed_ok e req action rc a"
proof -
  consider (r) rc0 es0 w0 where "ret rc0 action es0 w0 = Inr ((rc, a, es), w')"
    | (n) w0 where "upload_check_upgrade e req action w0 = Inr ((rc, a, es), w')"
    using assms(1)
    by (auto simp: upload_check_xip_def Let_def split: if_splits)
  then show ?thesis
  proof cases
    case r
    then show ?thesis using assms(2) by (rule ret_proceed_ok)
  next
    case n
    then show ?thesis using assms(2) by (rule check_upgrade_proceed_ok)
  qed
qed

lemma first_chunk_proceed:
  assumes "upload_first_chunk e req action_zero w = Inr ((rc, a, es), w')"
    and "act_proceed a"
  shows "rc = 0 \<and> write_len_ok e req a \<and> act_size a = req_size req"
proof -
  have z: "\<not> act_proceed action_zero" by (simp add: action_zero_def)
  consider (r0) rc0 es0 where "ret rc0 action_zero es0 w = Inr ((rc, a, es), w')"
    | (r1) rc0 es0 where
      "ret rc0 (action_zero\<lparr>act_size := req_size req\<rparr>) es0 w = Inr ((rc, a, es), w')"
    | (r2) rc0 es0 aid where
      "ret rc0 (action_zero\<lparr>act_size := req_size req, act_area_id := aid\<rparr>) es0 w
         = Inr ((rc, a, es), w')"
    | (n) aid where
      "upload_check_xip e req (action_zero\<lparr>act_size := req_size req, act_area_id := aid\<rparr>) w
         = Inr ((rc, a, es), w')"
    using assms(1)
    by (auto simp: upload_first_chunk_def Let_def split: if_splits sum.splits)
  then show ?thesis
  proof cases
    case r0
    then show ?thesis using assms(2) z by (auto simp: ret_def)
  next
    case r1
    then show ?thesis using assms(2) z by (auto simp: ret_def)
  next
    case r2
    then show ?thesis using assms(2) z by (auto simp: ret_def)
  next
    case n
    have "\<not> act_proceed (action_zero\<lparr>act_size := req_size req, act_area_id := aid\<rparr>)"
      using z by simp
    from check_xip_proceed_ok [OF n this] assms(2) show ?thesis
      by (simp add: proceed_ok_def)
  qed
qed

lemma continuation_proceed:
  assumes "upload_continuation e req action_zero w = Inr ((rc, a, es), w')"
    and "act_proceed a"
  shows "rc = 0 \<and> write_len_ok e req a
    \<and> act_size a = uint (st_size (g_img_mgmt_state w))"
proof -
  let ?a1 = "action_zero\<lparr>act_area_id := st_area_id (g_img_mgmt_state w),
                         act_size := uint (st_size (g_img_mgmt_state w))\<rparr>"
  have z: "\<not> act_proceed ?a1" by (simp add: action_zero_def)
  consider (r) "ret 0 ?a1 None w = Inr ((rc, a, es), w')"
    | (n) "upload_write_size e req ?a1 w = Inr ((rc, a, es), w')"
    using assms(1)
    by (auto simp: upload_continuation_def Let_def split: if_splits)
  then show ?thesis
  proof cases
    case r
    then show ?thesis using assms(2) z by (auto simp: ret_def)
  next
    case n
    from write_size_result [OF n z] assms(2) show ?thesis by simp
  qed
qed

text \<open>\<open>L - L mod A\<close> is the largest multiple of \<open>A\<close> that is at most \<open>L\<close>.\<close>

lemma largest_multiple:
  "A dvd (L - L mod A) \<and> L - L mod A \<le> L
   \<and> (\<forall>k. A dvd k \<and> k \<le> L \<longrightarrow> k \<le> L - L mod A)" for A L :: nat
proof (intro conjI allI impI)
  show "A dvd (L - L mod A)" by (simp add: minus_mod_eq_mult_div)
  show "L - L mod A \<le> L" by simp
  fix k assume k: "A dvd k \<and> k \<le> L"
  then obtain q where q: "k = A * q" by (auto elim: dvdE)
  show "k \<le> L - L mod A"
  proof (cases "A = 0")
    case True
    with q show ?thesis by simp
  next
    case False
    then have "q \<le> L div A"
      using k q by (metis div_le_mono nonzero_mult_div_cancel_left)
    then have "A * q \<le> A * (L div A)" by simp
    then show ?thesis by (simp add: q minus_mod_eq_mult_div)
  qed
qed

text \<open>The way of a first chunk to the version check, and the check itself.\<close>

lemma first_chunk_reaches_xip:
  assumes "header_checks_pass e req"
    and "\<not> upload_resumes (g_img_mgmt_state w) req"
    and "img_mgmt_get_unused_slot_area_id e (req_image req - 1) = Inr aid"
    and "0 \<le> aid"
  shows "upload_first_chunk e req action_zero w
    = upload_check_xip e req (action_zero\<lparr>act_size := req_size req, act_area_id := aid\<rparr>) w"
  using assms
  by (simp add: upload_first_chunk_def header_checks_pass_def Let_def)

lemma check_xip_passes:
  assumes "xip_check_passes e req (act_area_id action)"
  shows "upload_check_xip e req action w
    = upload_check_upgrade e req action
        (w\<lparr>calls := calls w @ xip_check_calls e req (act_area_id action)\<rparr>)"
  using assms
  by (simp add: upload_check_xip_def xip_check_passes_def xip_check_calls_def
      xip_check_applies_def do_call_def Let_def split: if_splits)

lemma check_upgrade_downgrade:
  assumes "req_upgrade req" and "fst (img_mgmt_my_version e) = 0"
    and "\<not> version_less (snd (img_mgmt_my_version e)) (ih_ver (req_hdr req))"
  shows "upload_check_upgrade e req action w
    = Inr ((MGMT_ERR_EBADSTATE, action, Some img_mgmt_err_str_downgrade),
           w\<lparr>calls := calls w @ [Img_mgmt_my_version]\<rparr>)"
  using assms
  by (simp add: upload_check_upgrade_def vercmp_ge_0 ret_def do_call_def Let_def)

lemma check_upgrade_passes:
  assumes "req_upgrade req" and "fst (img_mgmt_my_version e) = 0"
    and "version_less (snd (img_mgmt_my_version e)) (ih_ver (req_hdr req))"
  shows "upload_check_upgrade e req action w
    = upload_check_erase e req action (w\<lparr>calls := calls w @ [Img_mgmt_my_version]\<rparr>)"
  using assms
  by (simp add: upload_check_upgrade_def vercmp_ge_0 do_call_def Let_def)

text \<open>The sample device offers slot 1, whose area is 2.\<close>

lemma sample_select: "img_mgmt_get_unused_slot_area_id sample_env (- 1) = Inr 2"
proof -
  have "img_mgmt_slot_in_use sample_env 0 = Inr 1" "img_mgmt_slot_in_use sample_env 1 = Inr 0"
    by (simp_all add: img_mgmt_slot_in_use_def sample_flags state_flag_defs)
  moreover have "zephyr_img_mgmt_flash_area_id sample_env 1 = 2"
    by (simp add: zephyr_img_mgmt_flash_area_id_def sample_env_def)
  ultimately show ?thesis
    by (simp add: img_mgmt_get_unused_slot_area_id_def auto_select_0 auto_select_1)
qed

text \<open>The flags do not depend on what \<^verbatim>\<open>img_mgmt_read_info\<close> answers.\<close>

lemma state_flags_read_info:
  "img_mgmt_state_flags (e\<lparr>img_mgmt_read_info := ri\<rparr>) slot = img_mgmt_state_flags e slot"
proof -
  have "swap_type_flags (e\<lparr>img_mgmt_read_info := ri\<rparr>) s t = swap_type_flags e s t"
    for s t
    by (simp add: swap_type_flags_def)
  moreover have "scorpio_flags (e\<lparr>img_mgmt_read_info := ri\<rparr>) s = scorpio_flags e s" for s
    by (simp add: scorpio_flags_def)
  moreover have "img_mgmt_impl_swap_type (e\<lparr>img_mgmt_read_info := ri\<rparr>)
      = img_mgmt_impl_swap_type e"
    by (simp add: img_mgmt_impl_swap_type_def)
  ultimately show ?thesis
    by (simp add: img_mgmt_state_flags_def split: sum.splits)
qed

subsection \<open>Status flags\<close>

text \<open>
  Claim C1, amended. In the build without the board variant, with the booting slot \<open>b\<close>
  one of the slots 0 and 1 and \<open>1 - b\<close> the other one, the flags follow the table: under
  None the booting slot has Confirmed and Active and the other slot no flag; under Test
  the booting slot has Confirmed and the other slot Pending; under Permanent the booting
  slot has Confirmed and the other slot Pending and Permanent; under Revert the booting
  slot has Active only and the other slot Confirmed. The slots that have Active are the
  booting slot alone under None and under Revert, and none under Test and under
  Permanent.
\<close>

theorem state_flags_table:
  assumes "\<not> CONFIG_BOARD_SCORPIO e"
    and "b = IMG_MGMT_BOOT_CURR_SLOT e" and "b = 0 \<or> b = 1"
  shows
   "(mcuboot_swap_type e = BOOT_SWAP_TYPE_NONE \<longrightarrow>
       img_mgmt_state_flags e b
         = Inr (IMG_MGMT_STATE_F_CONFIRMED OR IMG_MGMT_STATE_F_ACTIVE)
       \<and> img_mgmt_state_flags e (1 - b) = Inr 0
       \<and> active_slots e = [b])
    \<and> (mcuboot_swap_type e = BOOT_SWAP_TYPE_TEST \<longrightarrow>
       img_mgmt_state_flags e b = Inr IMG_MGMT_STATE_F_CONFIRMED
       \<and> img_mgmt_state_flags e (1 - b) = Inr IMG_MGMT_STATE_F_PENDING
       \<and> active_slots e = [])
    \<and> (mcuboot_swap_type e = BOOT_SWAP_TYPE_PERM \<longrightarrow>
       img_mgmt_state_flags e b = Inr IMG_MGMT_STATE_F_CONFIRMED
       \<and> img_mgmt_state_flags e (1 - b)
         = Inr (IMG_MGMT_STATE_F_PENDING OR IMG_MGMT_STATE_F_PERMANENT)
       \<and> active_slots e = [])
    \<and> (mcuboot_swap_type e = BOOT_SWAP_TYPE_REVERT \<longrightarrow>
       img_mgmt_state_flags e b = Inr IMG_MGMT_STATE_F_ACTIVE
       \<and> img_mgmt_state_flags e (1 - b) = Inr IMG_MGMT_STATE_F_CONFIRMED
       \<and> active_slots e = [b])"
  using assms
  by (auto simp: img_mgmt_state_flags_def img_mgmt_impl_swap_type_def swap_type_flags_def
      active_slots_def has_flag_def state_flag_defs swap_type_defs)

theorem state_flags_table_witness:
  "img_mgmt_state_flags (env_with_swap BOOT_SWAP_TYPE_NONE) 0
     = Inr (IMG_MGMT_STATE_F_CONFIRMED OR IMG_MGMT_STATE_F_ACTIVE)
   \<and> img_mgmt_state_flags (env_with_swap BOOT_SWAP_TYPE_NONE) 1 = Inr 0
   \<and> active_slots (env_with_swap BOOT_SWAP_TYPE_NONE) = [0]
   \<and> img_mgmt_state_flags (env_with_swap BOOT_SWAP_TYPE_TEST) 0
     = Inr IMG_MGMT_STATE_F_CONFIRMED
   \<and> img_mgmt_state_flags (env_with_swap BOOT_SWAP_TYPE_TEST) 1
     = Inr IMG_MGMT_STATE_F_PENDING
   \<and> active_slots (env_with_swap BOOT_SWAP_TYPE_TEST) = []
   \<and> img_mgmt_state_flags (env_with_swap BOOT_SWAP_TYPE_PERM) 0
     = Inr IMG_MGMT_STATE_F_CONFIRMED
   \<and> img_mgmt_state_flags (env_with_swap BOOT_SWAP_TYPE_PERM) 1
     = Inr (IMG_MGMT_STATE_F_PENDING OR IMG_MGMT_STATE_F_PERMANENT)
   \<and> active_slots (env_with_swap BOOT_SWAP_TYPE_PERM) = []
   \<and> img_mgmt_state_flags (env_with_swap BOOT_SWAP_TYPE_REVERT) 0
     = Inr IMG_MGMT_STATE_F_ACTIVE
   \<and> img_mgmt_state_flags (env_with_swap BOOT_SWAP_TYPE_REVERT) 1
     = Inr IMG_MGMT_STATE_F_CONFIRMED
   \<and> active_slots (env_with_swap BOOT_SWAP_TYPE_REVERT) = [0]"
  using state_flags_table [of "env_with_swap BOOT_SWAP_TYPE_NONE" 0]
    state_flags_table [of "env_with_swap BOOT_SWAP_TYPE_TEST" 0]
    state_flags_table [of "env_with_swap BOOT_SWAP_TYPE_PERM" 0]
    state_flags_table [of "env_with_swap BOOT_SWAP_TYPE_REVERT" 0]
  by (simp add: env_with_swap_def sample_env_def swap_type_defs)

text \<open>
  Claim C1 as stated fails in its last part: with a test swap requested and slot 0
  booting, no revert is in progress and neither slot has Active.
\<close>

theorem active_slots_counterexample:
  "img_mgmt_impl_swap_type (env_with_swap BOOT_SWAP_TYPE_TEST) = Inr IMG_MGMT_SWAP_TYPE_TEST
   \<and> img_mgmt_state_flags (env_with_swap BOOT_SWAP_TYPE_TEST) 0
     = Inr IMG_MGMT_STATE_F_CONFIRMED
   \<and> img_mgmt_state_flags (env_with_swap BOOT_SWAP_TYPE_TEST) 1
     = Inr IMG_MGMT_STATE_F_PENDING
   \<and> length (active_slots (env_with_swap BOOT_SWAP_TYPE_TEST)) = 0"
  by (simp add: env_with_swap_def sample_env_def img_mgmt_state_flags_def
      img_mgmt_impl_swap_type_def swap_type_flags_def active_slots_def has_flag_def
      state_flag_defs swap_type_defs)

text \<open>
  Claim C2, evaluated where it fails. The build compiles assertions out and the
  bootloader reports the swap type 5, none of the four known ones:
  \<^verbatim>\<open>img_mgmt_impl_swap_type\<close> passes its \<^verbatim>\<open>assert(0)\<close> and returns the code of None, and
  the flag derivation gives the booting slot 0 Confirmed and Active and slot 1 no flag,
  the flags of the None case, with no error signalled.
\<close>

theorem unknown_swap_type_defaults_to_none:
  "mcuboot_swap_type (env_ndebug 5) \<noteq> BOOT_SWAP_TYPE_NONE
   \<and> mcuboot_swap_type (env_ndebug 5) \<noteq> BOOT_SWAP_TYPE_TEST
   \<and> mcuboot_swap_type (env_ndebug 5) \<noteq> BOOT_SWAP_TYPE_PERM
   \<and> mcuboot_swap_type (env_ndebug 5) \<noteq> BOOT_SWAP_TYPE_REVERT
   \<and> IMG_MGMT_BOOT_CURR_SLOT (env_ndebug 5) = 0
   \<and> img_mgmt_impl_swap_type (env_ndebug 5) = Inr IMG_MGMT_SWAP_TYPE_NONE
   \<and> img_mgmt_state_flags (env_ndebug 5) 0
       = Inr (IMG_MGMT_STATE_F_CONFIRMED OR IMG_MGMT_STATE_F_ACTIVE)
   \<and> img_mgmt_state_flags (env_ndebug 5) 1 = Inr 0
   \<and> img_mgmt_state_flags (env_ndebug 5) 0
       = img_mgmt_state_flags (env_ndebug BOOT_SWAP_TYPE_NONE) 0
   \<and> img_mgmt_state_flags (env_ndebug 5) 1
       = img_mgmt_state_flags (env_ndebug BOOT_SWAP_TYPE_NONE) 1"
  by (simp add: env_ndebug_def sample_env_def img_mgmt_state_flags_def
      img_mgmt_impl_swap_type_def swap_type_flags_def swap_type_defs)

subsection \<open>Slot selection\<close>



subsection \<open>State transitions\<close>

text \<open>
  Claim C8, evaluated where it fails. A test swap is requested, so slot 1 is Pending,
  and the logger reports that its entry was written: \<^verbatim>\<open>img_mgmt_state_confirm\<close> calls
  neither the bootloader nor the observer, hands the bad-state code to the logger, and
  returns the logger's 0, not the bad-state code.
\<close>

theorem confirm_returns_logger_result:
  "img_mgmt_state_any_pending (env_with_swap BOOT_SWAP_TYPE_TEST) = Inr 1
   \<and> img_mgmt_state_confirm (env_with_swap BOOT_SWAP_TYPE_TEST) idle_world
       = Inr (0, idle_world\<lparr>calls := [Img_mgmt_impl_log_confirm MGMT_ERR_EBADSTATE None]\<rparr>)
   \<and> MGMT_ERR_EBADSTATE \<noteq> 0"
proof -
  have p: "img_mgmt_state_any_pending (env_with_swap BOOT_SWAP_TYPE_TEST) = Inr 1"
    by (simp add: img_mgmt_state_any_pending_def test_flags state_flag_defs)
  have l: "img_mgmt_impl_log_confirm (env_with_swap BOOT_SWAP_TYPE_TEST) rc h = 0" for rc h
    by (simp add: env_with_swap_def sample_env_def)
  show ?thesis
    by (simp add: img_mgmt_state_confirm_def p l do_call_def idle_world_def mgmt_err_nonzero)
qed

text \<open>
  Claim C9. Whenever the flags of the slot are derived, \<^verbatim>\<open>img_mgmt_state_set_pending\<close>
  returns, and the last two calls it makes read the hash of the slot's image and log
  the code it returns together with that hash, absent when the read failed; before them
  it calls at most the bootloader. The code and the earlier calls are the same whatever
  the read of the hash answers. When the flags have Confirmed and the slot is not slot
  0, the code is the bad-state one and the bootloader is not called.
\<close>

theorem set_pending_logs:
  assumes "img_mgmt_state_flags e slot = Inr flags"
  shows "(\<exists>rc pre.
       img_mgmt_state_set_pending e slot permanent w
         = Inr (rc, w\<lparr>calls := calls w @ pre @ log_tail e slot permanent rc\<rparr>)
       \<and> (pre = [] \<or> pre = [Boot_request_upgrade (of_bool (permanent \<noteq> 0))])
       \<and> (\<forall>ri. img_mgmt_state_set_pending (e\<lparr>img_mgmt_read_info := ri\<rparr>) slot permanent w
            = Inr (rc, w\<lparr>calls := calls w @ pre
                     @ log_tail (e\<lparr>img_mgmt_read_info := ri\<rparr>) slot permanent rc\<rparr>)))
     \<and> (flags AND IMG_MGMT_STATE_F_CONFIRMED \<noteq> 0 \<and> slot \<noteq> 0 \<longrightarrow>
       img_mgmt_state_set_pending e slot permanent w
         = Inr (MGMT_ERR_EBADSTATE,
                w\<lparr>calls := calls w @ log_tail e slot permanent MGMT_ERR_EBADSTATE\<rparr>))"
proof (intro conjI impI)
  let ?u = "Boot_request_upgrade (of_bool (permanent \<noteq> 0))"
  let ?P = "\<lambda>rc pre. img_mgmt_state_set_pending e slot permanent w
         = Inr (rc, w\<lparr>calls := calls w @ pre @ log_tail e slot permanent rc\<rparr>)
       \<and> (pre = [] \<or> pre = [?u])
       \<and> (\<forall>ri. img_mgmt_state_set_pending (e\<lparr>img_mgmt_read_info := ri\<rparr>) slot permanent w
            = Inr (rc, w\<lparr>calls := calls w @ pre
                     @ log_tail (e\<lparr>img_mgmt_read_info := ri\<rparr>) slot permanent rc\<rparr>))"
  note u = set_pending_unfold [OF assms, of permanent w]
  have fl: "img_mgmt_state_flags (e\<lparr>img_mgmt_read_info := ri\<rparr>) slot = Inr flags" for ri
    using assms by (simp add: state_flags_read_info)
  note u' = set_pending_unfold [OF fl, of _ permanent w]
  consider (guard) "flags AND IMG_MGMT_STATE_F_CONFIRMED \<noteq> 0 \<and> slot \<noteq> 0"
    | (other) "\<not> (flags AND IMG_MGMT_STATE_F_CONFIRMED \<noteq> 0 \<and> slot \<noteq> 0)" "slot \<noteq> 1"
    | (fail) "\<not> (flags AND IMG_MGMT_STATE_F_CONFIRMED \<noteq> 0 \<and> slot \<noteq> 0)" "slot = 1"
        "boot_request_upgrade e (of_bool (permanent \<noteq> 0)) \<noteq> 0"
    | (ok) "\<not> (flags AND IMG_MGMT_STATE_F_CONFIRMED \<noteq> 0 \<and> slot \<noteq> 0)" "slot = 1"
        "boot_request_upgrade e (of_bool (permanent \<noteq> 0)) = 0"
    by blast
  then show "\<exists>rc pre. ?P rc pre"
  proof cases
    case guard
    have "?P MGMT_ERR_EBADSTATE []"
      unfolding u u' using guard by auto
    then show ?thesis by blast
  next
    case other
    have "?P MGMT_ERR_EUNKNOWN []"
      unfolding u u' using other by auto
    then show ?thesis by blast
  next
    case fail
    have "?P MGMT_ERR_EUNKNOWN [?u]"
      unfolding u u' using fail by auto
    then show ?thesis by blast
  next
    case ok
    have "?P 0 [?u]"
      unfolding u u' using ok by auto
    then show ?thesis by blast
  qed
next
  assume "flags AND IMG_MGMT_STATE_F_CONFIRMED \<noteq> 0 \<and> slot \<noteq> 0"
  then show "img_mgmt_state_set_pending e slot permanent w
         = Inr (MGMT_ERR_EBADSTATE,
                w\<lparr>calls := calls w @ log_tail e slot permanent MGMT_ERR_EBADSTATE\<rparr>)"
    unfolding set_pending_unfold [OF assms] by simp
qed

theorem set_pending_logs_witness:
  "img_mgmt_state_set_pending (env_with_swap BOOT_SWAP_TYPE_REVERT) 1 0 idle_world
     = Inr (MGMT_ERR_EBADSTATE,
            idle_world\<lparr>calls :=
              [Img_mgmt_read_info 1,
               Img_mgmt_impl_log_pending MGMT_ERR_EBADSTATE (Some [0xAB, 0xCD])]\<rparr>)"
proof -
  have c: "IMG_MGMT_STATE_F_CONFIRMED AND IMG_MGMT_STATE_F_CONFIRMED \<noteq> 0"
    by (simp add: state_flag_defs)
  have t: "log_tail (env_with_swap BOOT_SWAP_TYPE_REVERT) 1 0 MGMT_ERR_EBADSTATE
     = [Img_mgmt_read_info 1,
        Img_mgmt_impl_log_pending MGMT_ERR_EBADSTATE (Some [0xAB, 0xCD])]"
    by (simp add: log_tail_def logged_def hash_read_def env_with_swap_def sample_env_def)
  show ?thesis
    using set_pending_logs [OF revert_flags(2), of 0 idle_world] c t
    by (simp add: idle_world_def)
qed

text \<open>
  Claim C10. For a slot other than slot 1, \<^verbatim>\<open>img_mgmt_impl_write_pending\<close> returns the
  invalid-argument code, which is not 0, and makes no call; and
  \<^verbatim>\<open>img_mgmt_state_set_pending\<close> returns 0 for slot 1 only.
\<close>

theorem write_pending_only_slot_1:
  "(slot \<noteq> 1 \<longrightarrow>
      img_mgmt_impl_write_pending e slot permanent w = (MGMT_ERR_EINVAL, w)
      \<and> MGMT_ERR_EINVAL \<noteq> 0)
   \<and> (img_mgmt_state_set_pending e slot p w = Inr (0, w') \<longrightarrow> slot = 1)"
proof -
  have a: "img_mgmt_impl_write_pending e slot permanent w = (MGMT_ERR_EINVAL, w)"
    if "slot \<noteq> 1" for permanent
    using that by (simp add: img_mgmt_impl_write_pending_def)
  have c: "slot = 1" if r: "img_mgmt_state_set_pending e slot p w = Inr (0, w')"
  proof (rule ccontr)
    assume ne: "slot \<noteq> 1"
    obtain flags where fl: "img_mgmt_state_flags e slot = Inr flags"
      using r by (cases "img_mgmt_state_flags e slot")
        (simp_all add: img_mgmt_state_set_pending_def)
    show False
      using r ne mgmt_err_nonzero
      by (simp add: set_pending_unfold [OF fl] split: if_splits)
  qed
  show ?thesis using a c mgmt_err_nonzero by blast
qed

theorem write_pending_only_slot_1_witness:
  "img_mgmt_impl_write_pending sample_env 0 False idle_world = (MGMT_ERR_EINVAL, idle_world)
   \<and> img_mgmt_state_set_pending sample_env 0 0 idle_world
       \<noteq> Inr (0, idle_world\<lparr>calls :=
            [Img_mgmt_read_info 0, Img_mgmt_impl_log_pending 0 (Some [0xAB, 0xCD])]\<rparr>)"
  using write_pending_only_slot_1 [of 0 sample_env False idle_world 0]
  by auto

subsection \<open>Upload inspection\<close>

text \<open>
  Claim C3. A request whose offset is above 0 and differs from the offset the session
  expects is answered with the code 0 and an action that has \<open>proceed\<close> false and holds
  the session's area and size; the session and the calls made are as before.
\<close>

theorem resync_on_offset_mismatch:
  assumes "0 < req_off req"
    and "req_off req \<noteq> uint (st_off (g_img_mgmt_state w))"
  shows "img_mgmt_impl_upload_inspect e req w
    = Inr ((0, action_zero\<lparr>act_area_id := st_area_id (g_img_mgmt_state w),
                          act_size := uint (st_size (g_img_mgmt_state w))\<rparr>, None), w)
    \<and> \<not> act_proceed (action_zero\<lparr>act_area_id := st_area_id (g_img_mgmt_state w),
                          act_size := uint (st_size (g_img_mgmt_state w))\<rparr>)"
  using assms
  by (simp add: img_mgmt_impl_upload_inspect_def upload_continuation_def ret_def
      action_zero_def)

theorem resync_on_offset_mismatch_witness:
  "img_mgmt_impl_upload_inspect sample_env (later_chunk 600) uploading_world
    = Inr ((0, \<lparr>act_size = 900, act_write_bytes = 0, act_area_id = 2,
               act_proceed = False, act_erase = False\<rparr>, None), uploading_world)"
  using resync_on_offset_mismatch [of "later_chunk 600" uploading_world sample_env]
  by (simp add: later_chunk_def uploading_world_def action_zero_def)

text \<open>
  Claim C4, amended. A first chunk that passes the header checks (the chunk holds a
  whole image header, the total size is given, the magic is right, the fingerprint is
  not longer than the maximum) and carries a non-empty fingerprint equal to that of the
  upload in progress is answered with the code 0 and an action that has \<open>proceed\<close> false
  and no area; the session and the calls made are as before, whatever the environment:
  no slot is selected, no version read, no flash opened.
\<close>

theorem resumption_shortcut:
  assumes "req_off req = 0" and "header_checks_pass e req"
    and "0 < req_data_sha_len req"
    and "st_area_id (g_img_mgmt_state w) \<noteq> - 1"
    and "st_data_sha_len (g_img_mgmt_state w) = req_data_sha_len req"
    and "take (req_data_sha_len req) (st_data_sha (g_img_mgmt_state w))
         = take (req_data_sha_len req) (req_data_sha req)"
  shows "img_mgmt_impl_upload_inspect e req w
    = Inr ((0, action_zero\<lparr>act_size := req_size req\<rparr>, None), w)
    \<and> \<not> act_proceed (action_zero\<lparr>act_size := req_size req\<rparr>)"
  using assms
  by (simp add: img_mgmt_impl_upload_inspect_def upload_first_chunk_def ret_def
      action_zero_def header_checks_pass_def upload_resumes_def)

theorem resumption_shortcut_witness:
  "img_mgmt_impl_upload_inspect sample_env first_chunk uploading_world
    = Inr ((0, \<lparr>act_size = 900, act_write_bytes = 0, act_area_id = 0,
               act_proceed = False, act_erase = False\<rparr>, None), uploading_world)"
  using resumption_shortcut [of first_chunk sample_env uploading_world]
  by (simp add: first_chunk_def uploading_world_def action_zero_def header_checks_pass_def
      sample_env_def sample_header_def)

text \<open>
  Claim C4 as stated fails: a first chunk of 16 bytes, shorter than an image header,
  that carries the fingerprint of the upload in progress is rejected with the
  invalid-argument code.
\<close>

theorem resumption_shortcut_counterexample:
  "req_off (first_chunk\<lparr>req_data_len := 16\<rparr>) = 0
   \<and> upload_resumes (g_img_mgmt_state uploading_world) (first_chunk\<lparr>req_data_len := 16\<rparr>)
   \<and> img_mgmt_impl_upload_inspect sample_env (first_chunk\<lparr>req_data_len := 16\<rparr>)
        uploading_world
      = Inr ((MGMT_ERR_EINVAL, action_zero, Some img_mgmt_err_str_hdr_malformed),
             uploading_world)
   \<and> MGMT_ERR_EINVAL \<noteq> 0"
  by (simp add: img_mgmt_impl_upload_inspect_def upload_first_chunk_def ret_def
      upload_resumes_def first_chunk_def uploading_world_def sample_env_def mgmt_err_nonzero)

text \<open>
  Claim C5. When the inspection returns an action with \<open>proceed\<close> set, the code is 0 and
  the total size \<open>S\<close> of the action is the request's on a first chunk and the session's
  on a later one. If offset plus chunk length is below \<open>S\<close>, the area of the action opens,
  its alignment \<open>A\<close> is not 0, and the write length is the largest multiple of \<open>A\<close> that
  is at most the chunk length. Otherwise the write length is the chunk length.
\<close>

theorem write_length_clamped:
  assumes "img_mgmt_impl_upload_inspect e req w = Inr ((rc, action, es), w')"
    and "act_proceed action"
  shows "rc = 0
    \<and> act_size action
        = (if req_off req = 0 then req_size req else uint (st_size (g_img_mgmt_state w)))
    \<and> (req_off req + int (req_data_len req) < act_size action \<longrightarrow>
        (\<exists>fa m. flash_area_open e (act_area_id action) = (0, fa) \<and> fa_align fa \<noteq> 0
           \<and> act_write_bytes action = int m
           \<and> unat (fa_align fa) dvd m \<and> m \<le> req_data_len req
           \<and> (\<forall>k. unat (fa_align fa) dvd k \<and> k \<le> req_data_len req \<longrightarrow> k \<le> m)))
    \<and> (\<not> req_off req + int (req_data_len req) < act_size action \<longrightarrow>
        act_write_bytes action = int (req_data_len req))"
proof -
  have z: "\<not> act_proceed action_zero" by (simp add: action_zero_def)
  have main: "rc = 0 \<and> write_len_ok e req action
    \<and> act_size action
        = (if req_off req = 0 then req_size req else uint (st_size (g_img_mgmt_state w)))"
  proof -
    consider (missing) "req_off req = - 1"
      | (first) "req_off req = 0"
        "upload_first_chunk e req action_zero w = Inr ((rc, action, es), w')"
      | (later) "req_off req \<noteq> 0"
        "upload_continuation e req action_zero w = Inr ((rc, action, es), w')"
      using assms(1)
      by (auto simp: img_mgmt_impl_upload_inspect_def split: if_splits)
    then show ?thesis
    proof cases
      case missing
      then show ?thesis
        using assms z by (auto simp: img_mgmt_impl_upload_inspect_def ret_def)
    next
      case first
      then show ?thesis using first_chunk_proceed [OF first(2) assms(2)] by simp
    next
      case later
      then show ?thesis using continuation_proceed [OF later(2) assms(2)] by simp
    qed
  qed
  let ?L = "req_data_len req"
  have clamp: "\<exists>fa m. flash_area_open e (act_area_id action) = (0, fa) \<and> fa_align fa \<noteq> 0
           \<and> act_write_bytes action = int m
           \<and> unat (fa_align fa) dvd m \<and> m \<le> ?L
           \<and> (\<forall>k. unat (fa_align fa) dvd k \<and> k \<le> ?L \<longrightarrow> k \<le> m)"
    if lt: "req_off req + int ?L < act_size action"
  proof -
    let ?fa = "snd (flash_area_open e (act_area_id action))"
    let ?m = "?L - ?L mod unat (fa_align ?fa)"
    from main lt have o: "fst (flash_area_open e (act_area_id action)) = 0"
      and al: "fa_align ?fa \<noteq> 0" and wb: "act_write_bytes action = int ?m"
      by (simp_all add: write_len_ok_def)
    from o have "flash_area_open e (act_area_id action) = (0, ?fa)"
      by (metis prod.collapse)
    with al wb largest_multiple [of "unat (fa_align ?fa)" ?L] show ?thesis by blast
  qed
  have final: "act_write_bytes action = int ?L"
    if "\<not> req_off req + int ?L < act_size action"
    using main that by (simp add: write_len_ok_def)
  from main clamp final show ?thesis by blast
qed

theorem write_length_clamped_witness:
  "img_mgmt_impl_upload_inspect sample_env (later_chunk 304) uploading_world
     = Inr ((0, \<lparr>act_size = 900, act_write_bytes = 296, act_area_id = 2,
                act_proceed = True, act_erase = False\<rparr>, None),
            uploading_world\<lparr>calls := [Flash_area_open 2, Flash_area_close 2]\<rparr>)
   \<and> req_off (later_chunk 304) + int (req_data_len (later_chunk 304)) < 900
   \<and> fa_align (snd (flash_area_open sample_env 2)) = 8
   \<and> (8 :: nat) dvd 296 \<and> (296 :: nat) \<le> req_data_len (later_chunk 304)
   \<and> img_mgmt_impl_upload_inspect sample_env (later_chunk 600) last_chunk_world
     = Inr ((0, \<lparr>act_size = 900, act_write_bytes = 300, act_area_id = 2,
                act_proceed = True, act_erase = False\<rparr>, None), last_chunk_world)
   \<and> \<not> req_off (later_chunk 600) + int (req_data_len (later_chunk 600)) < 900"
proof -
  have ev: "img_mgmt_impl_upload_inspect sample_env (later_chunk 304) uploading_world
     = Inr ((0, \<lparr>act_size = 900, act_write_bytes = 296, act_area_id = 2,
                act_proceed = True, act_erase = False\<rparr>, None),
            uploading_world\<lparr>calls := [Flash_area_open 2, Flash_area_close 2]\<rparr>)"
    by code_simp
  have ev': "img_mgmt_impl_upload_inspect sample_env (later_chunk 600) last_chunk_world
     = Inr ((0, \<lparr>act_size = 900, act_write_bytes = 300, act_area_id = 2,
                act_proceed = True, act_erase = False\<rparr>, None), last_chunk_world)"
    by code_simp
  have p: "act_proceed \<lparr>act_size = 900, act_write_bytes = w, act_area_id = 2,
                act_proceed = True, act_erase = False\<rparr>" for w
    by simp
  show ?thesis
    using write_length_clamped [OF ev p] write_length_clamped [OF ev' p] ev ev'
    by (simp add: later_chunk_def sample_env_def sample_area_def)
qed

text \<open>
  Claim C7, amended. Take a first chunk with \<^verbatim>\<open>upgrade\<close> set that passes the header
  checks, does not resume the upload in progress, is given a slot, passes the
  flash-address check where that applies, and for which the running version is read.
  If the version of the new image is not strictly greater than the running one, the
  inspection returns the bad-state code with the downgrade message, having read the
  running version and touched nothing else but what the flash-address check opens; if
  it is strictly greater, whatever the inspection returns is neither that code nor that
  message. The comparison is the lexicographic one on major, minor and revision, and
  the build numbers do not enter it.
\<close>

theorem upgrade_only_gate:
  assumes "req_off req = 0" and "req_upgrade req"
    and "header_checks_pass e req"
    and "\<not> upload_resumes (g_img_mgmt_state w) req"
    and "img_mgmt_get_unused_slot_area_id e (req_image req - 1) = Inr aid"
    and "0 \<le> aid"
    and "xip_check_passes e req aid"
    and "fst (img_mgmt_my_version e) = 0"
  shows "(\<not> version_less (snd (img_mgmt_my_version e)) (ih_ver (req_hdr req)) \<longrightarrow>
       img_mgmt_impl_upload_inspect e req w
         = Inr ((MGMT_ERR_EBADSTATE,
                 action_zero\<lparr>act_size := req_size req, act_area_id := aid\<rparr>,
                 Some img_mgmt_err_str_downgrade),
                w\<lparr>calls := calls w @ xip_check_calls e req aid @ [Img_mgmt_my_version]\<rparr>))
    \<and> (version_less (snd (img_mgmt_my_version e)) (ih_ver (req_hdr req)) \<longrightarrow>
       (\<forall>rc a es w'. img_mgmt_impl_upload_inspect e req w = Inr ((rc, a, es), w') \<longrightarrow>
          rc \<noteq> MGMT_ERR_EBADSTATE \<and> es \<noteq> Some img_mgmt_err_str_downgrade))
    \<and> (\<forall>a b. img_mgmt_vercmp a b = spec_version_compare a b)
    \<and> (\<forall>a b x y. img_mgmt_vercmp (a\<lparr>iv_build_num := x\<rparr>) (b\<lparr>iv_build_num := y\<rparr>)
          = img_mgmt_vercmp a b)"
proof -
  let ?a2 = "action_zero\<lparr>act_size := req_size req, act_area_id := aid\<rparr>"
  let ?w2 = "w\<lparr>calls := calls w @ xip_check_calls e req aid\<rparr>"
  have np: "\<not> act_proceed ?a2" by (simp add: action_zero_def)
  have ne: "req_off req \<noteq> - 1" using assms(1) by simp
  have x: "xip_check_passes e req (act_area_id ?a2)" using assms(7) by simp
  have reach: "img_mgmt_impl_upload_inspect e req w = upload_check_upgrade e req ?a2 ?w2"
    using first_chunk_reaches_xip [OF assms(3-6)] check_xip_passes [OF x, of w] assms(1)
    by (simp add: img_mgmt_impl_upload_inspect_def)
  have down: "img_mgmt_impl_upload_inspect e req w
         = Inr ((MGMT_ERR_EBADSTATE, ?a2, Some img_mgmt_err_str_downgrade),
                w\<lparr>calls := calls w @ xip_check_calls e req aid @ [Img_mgmt_my_version]\<rparr>)"
    if "\<not> version_less (snd (img_mgmt_my_version e)) (ih_ver (req_hdr req))"
    using check_upgrade_downgrade [OF assms(2) assms(8) that, of ?a2 ?w2] reach by simp
  have up: "rc \<noteq> MGMT_ERR_EBADSTATE \<and> es \<noteq> Some img_mgmt_err_str_downgrade"
    if v: "version_less (snd (img_mgmt_my_version e)) (ih_ver (req_hdr req))"
      and r: "img_mgmt_impl_upload_inspect e req w = Inr ((rc, a, es), w')"
    for rc a es w'
  proof -
    have "upload_check_erase e req ?a2 (?w2\<lparr>calls := calls ?w2 @ [Img_mgmt_my_version]\<rparr>)
        = Inr ((rc, a, es), w')"
      using check_upgrade_passes [OF assms(2) assms(8) v, of ?a2 ?w2] reach r by simp
    from check_erase_result(2) [OF this np] show ?thesis .
  qed
  show ?thesis
    using down up vercmp_spec vercmp_build by blast
qed

theorem upgrade_only_gate_witness:
  "img_mgmt_impl_upload_inspect sample_env upgrade_chunk idle_world
     = Inr ((MGMT_ERR_EBADSTATE,
             \<lparr>act_size = 900, act_write_bytes = 0, act_area_id = 2,
              act_proceed = False, act_erase = False\<rparr>,
             Some img_mgmt_err_str_downgrade),
            idle_world\<lparr>calls := [Img_mgmt_my_version]\<rparr>)
   \<and> img_mgmt_impl_upload_inspect sample_env newer_chunk idle_world
     = Inr ((0, \<lparr>act_size = 900, act_write_bytes = 296, act_area_id = 2,
                act_proceed = True, act_erase = False\<rparr>, None),
            idle_world\<lparr>calls :=
              [Img_mgmt_my_version, Flash_area_open 2, Flash_area_read 2 0 64,
               Flash_area_read 2 64 64, Flash_area_close 2, Flash_area_open 2,
               Flash_area_close 2]\<rparr>)
   \<and> 0 \<noteq> MGMT_ERR_EBADSTATE"
proof -
  have h: "header_checks_pass sample_env upgrade_chunk"
    "header_checks_pass sample_env newer_chunk"
    by (simp_all add: header_checks_pass_def upgrade_chunk_def newer_chunk_def first_chunk_def
        sample_env_def sample_header_def)
  have n: "\<not> upload_resumes (g_img_mgmt_state idle_world) upgrade_chunk"
    "\<not> upload_resumes (g_img_mgmt_state idle_world) newer_chunk"
    by (simp_all add: upload_resumes_def idle_world_def)
  have s: "img_mgmt_get_unused_slot_area_id sample_env (req_image upgrade_chunk - 1) = Inr 2"
    "img_mgmt_get_unused_slot_area_id sample_env (req_image newer_chunk - 1) = Inr 2"
    using sample_select by (simp_all add: upgrade_chunk_def newer_chunk_def first_chunk_def)
  have x: "xip_check_passes sample_env upgrade_chunk 2"
    "xip_check_passes sample_env newer_chunk 2"
    by (simp_all add: xip_check_passes_def xip_check_applies_def sample_env_def)
  have c: "xip_check_calls sample_env upgrade_chunk 2 = []"
    by (simp add: xip_check_calls_def xip_check_applies_def sample_env_def)
  have v: "fst (img_mgmt_my_version sample_env) = 0"
    by (simp add: sample_env_def)
  have o: "req_off upgrade_chunk = 0" "req_off newer_chunk = 0"
    and u: "req_upgrade upgrade_chunk" "req_upgrade newer_chunk"
    by (simp_all add: upgrade_chunk_def newer_chunk_def first_chunk_def)
  have l: "\<not> version_less (snd (img_mgmt_my_version sample_env))
                (ih_ver (req_hdr upgrade_chunk))"
    by (simp add: version_less_def sample_env_def upgrade_chunk_def first_chunk_def
        sample_header_def)
  have g: "version_less (snd (img_mgmt_my_version sample_env)) (ih_ver (req_hdr newer_chunk))"
    by (simp add: version_less_def sample_env_def newer_chunk_def first_chunk_def
        sample_header_def sample_version_def)
  have ev: "img_mgmt_impl_upload_inspect sample_env newer_chunk idle_world
     = Inr ((0, \<lparr>act_size = 900, act_write_bytes = 296, act_area_id = 2,
                act_proceed = True, act_erase = False\<rparr>, None),
            idle_world\<lparr>calls :=
              [Img_mgmt_my_version, Flash_area_open 2, Flash_area_read 2 0 64,
               Flash_area_read 2 64 64, Flash_area_close 2, Flash_area_open 2,
               Flash_area_close 2]\<rparr>)"
    by code_simp
  show ?thesis
    using upgrade_only_gate [OF o(1) u(1) h(1) n(1) s(1) _ x(1) v]
      upgrade_only_gate [OF o(2) u(2) h(2) n(2) s(2) _ x(2) v] l g c ev
    by (simp add: upgrade_chunk_def first_chunk_def action_zero_def idle_world_def)
qed

text \<open>
  Claim C7 as stated fails: a first chunk with \<^verbatim>\<open>upgrade\<close> set whose version equals the
  running one, and which carries the fingerprint of the upload in progress, is answered
  with the code 0 before any version is compared.
\<close>

theorem upgrade_only_gate_counterexample:
  "req_off upgrade_chunk = 0 \<and> req_upgrade upgrade_chunk
   \<and> header_checks_pass sample_env upgrade_chunk
   \<and> img_mgmt_my_version sample_env = (0, sample_version)
   \<and> ih_ver (req_hdr upgrade_chunk) = sample_version
   \<and> \<not> version_less sample_version sample_version
   \<and> img_mgmt_impl_upload_inspect sample_env upgrade_chunk uploading_world
      = Inr ((0, action_zero\<lparr>act_size := 900\<rparr>, None), uploading_world)
   \<and> MGMT_ERR_EBADSTATE \<noteq> 0"
  by (simp add: img_mgmt_impl_upload_inspect_def upload_first_chunk_def ret_def
      upload_resumes_def upgrade_chunk_def first_chunk_def uploading_world_def sample_env_def
      sample_header_def header_checks_pass_def version_less_def mgmt_err_nonzero)

end
